theory Spec2Isabelle
  imports Main "HOL-Library.Word"
begin

section \<open>NWSerial: the native serial transport (src/js/protocols/NWSerial.js)\<close>

text \<open>
  The class \<^verbatim>\<open>NWSerial\<close> is embedded as a record of its fields, and each method as a
  function on that record. JavaScript runs every callback to completion before the next
  one starts, so an \<^verbatim>\<open>async\<close> method is cut at its \<^verbatim>\<open>await\<close>: the part before
  it (\<open>_begin\<close>) and the part after it (\<open>_resume\<close>) are separate functions, and what the
  serial port library answers in between is an argument of the second part. The
  composition of both parts is the method run without interleaving.
\<close>

subsection \<open>Data\<close>

type_synonym byte = "8 word"

text \<open>A JavaScript number that comes out of \<^verbatim>\<open>parseInt\<close>: an integer or NaN.\<close>

datatype js_number = NaN | Num int

text \<open>An entry of \<^verbatim>\<open>SerialPort.list()\<close>; absent members are \<open>None\<close>.\<close>

record port_info =
  info_path :: string
  info_manufacturer :: "string option"
  info_vendorId :: "string option"
  info_productId :: "string option"

text \<open>The object \<^verbatim>\<open>_createPort\<close> returns; \<open>rawPort\<close> is its member \<^verbatim>\<open>port\<close>.\<close>

record descriptor =
  path :: string
  displayName :: string
  vendorId :: "js_number option"
  productId :: "js_number option"
  rawPort :: port_info

record connection_info =
  usbVendorId :: "js_number option"
  usbProductId :: "js_number option"

text \<open>
  The \<^verbatim>\<open>SerialPort\<close> object held in \<^verbatim>\<open>this.port\<close>. \<open>handleId\<close> is the identity of the
  object (the number of port objects constructed before it), so that what the library
  does to one object is not taken for another. The three counts are the listeners that
  \<^verbatim>\<open>port.on\<close> has registered on the object for \<^verbatim>\<open>data\<close>, \<^verbatim>\<open>error\<close> and \<^verbatim>\<open>close\<close>;
  the class registers one closure per call and never removes one.
\<close>

record serial_handle =
  handleId :: nat
  handlePath :: string
  baudRate :: nat
  isOpen :: bool
  dataListeners :: nat
  errorListeners :: nat
  closeListeners :: nat

text \<open>
  \<^verbatim>\<open>this.connectionId\<close> is not set by the constructor (\<open>IdUndefined\<close>), is the path
  while connected and is \<^verbatim>\<open>false\<close> after a completed disconnect.
\<close>

datatype conn_id = IdUndefined | IdFalse | IdPath string

datatype connect_detail = DetailFalse | DetailInfo connection_info

text \<open>The \<^verbatim>\<open>CustomEvent\<close>s the object dispatches, with their \<^verbatim>\<open>detail\<close>.\<close>

datatype event =
    AddedDevice descriptor
  | RemovedDevice descriptor
  | ConnectEvent connect_detail
  | DisconnectEvent bool
  | ReceiveEvent "byte list"

text \<open>The calls made on the \<^verbatim>\<open>SerialPort\<close> object, by the path of the handle.\<close>

datatype port_call =
    OpenCall string nat
  | CloseCall string
  | WriteCall string "byte list"
  | DrainCall string

text \<open>
  The fields of the constructor, in its order. \<open>serialPortLoaded\<close> stands for
  \<^verbatim>\<open>this._SerialPort\<close> being non-null. \<open>receiveListener\<close> is the registration of
  \<^verbatim>\<open>handleReceiveBytes\<close> for the event \<^verbatim>\<open>receive\<close> in the inherited \<^verbatim>\<open>EventTarget\<close>.
  \<open>portsCreated\<close> counts the \<^verbatim>\<open>SerialPort\<close> objects constructed so far.
  \<open>events\<close> and \<open>calls\<close> are the traces of the dispatched events and of the calls
  made on port objects, oldest first. The counters are JavaScript numbers; they are
  integers and exact below \<open>2^53\<close>, and are modelled as natural numbers.
\<close>

record nwserial =
  connected :: bool
  openRequested :: bool
  openCanceled :: bool
  closeRequested :: bool
  transmitting :: bool
  connectionInfo :: "connection_info option"
  connectionId :: conn_id
  bitrate :: nat
  bytesSent :: nat
  bytesReceived :: nat
  failed :: nat
  ports :: "descriptor list"
  port :: "serial_handle option"
  reading :: bool
  serialPortLoaded :: bool
  receiveListener :: bool
  portsCreated :: nat
  events :: "event list"
  calls :: "port_call list"

text \<open>
  How far an \<^verbatim>\<open>async\<close> method or a callback got: its promise resolved with a value, it
  is suspended at an \<^verbatim>\<open>await\<close> (or waits for the library's callback), its promise was
  rejected, or an exception left a callback and the promise is never settled.
\<close>

datatype 'a settled = Resolved 'a | Awaiting | Rejected | Uncaught

text \<open>
  What \<^verbatim>\<open>port.close(cb)\<close> does: it calls back without an error, calls back with an
  error, or throws. The library reports its errors through the callback; the third
  outcome is what the \<^verbatim>\<open>catch\<close> of \<^verbatim>\<open>disconnect\<close> is written for.
\<close>

datatype close_outcome = CloseOk | CloseError | CloseThrows

datatype open_outcome = OpenFailed | Opened

text \<open>
  What happens to a \<^verbatim>\<open>write\<close> followed by a \<^verbatim>\<open>drain\<close>: the write calls back with an
  error, the write succeeds and the drain calls back with an error, or both succeed.
\<close>

datatype send_outcome = WriteFailed | DrainFailed | Transmitted

datatype list_outcome = ListOk "port_info list" | ListThrows

text \<open>The object \<^verbatim>\<open>send\<close> returns, and the argument of its callback if it was called.\<close>

record send_return =
  result_bytesSent :: nat
  callbackArg :: "nat option"

subsection \<open>The constructor\<close>

definition constructor_fields :: "bool \<Rightarrow> nwserial" where
  "constructor_fields loaded =
     \<lparr> connected = False, openRequested = False, openCanceled = False,
       closeRequested = False, transmitting = False, connectionInfo = None,
       connectionId = IdUndefined, bitrate = 0, bytesSent = 0, bytesReceived = 0,
       failed = 0, ports = [], port = None, reading = False,
       serialPortLoaded = loaded, receiveListener = False, portsCreated = 0,
       events = [], calls = [] \<rparr>"

subsection \<open>Events\<close>

definition handleReceiveBytes :: "byte list \<Rightarrow> nwserial \<Rightarrow> nwserial" where
  "handleReceiveBytes detail s = s\<lparr> bytesReceived := bytesReceived s + length detail \<rparr>"

text \<open>
  \<^verbatim>\<open>dispatchEvent\<close> is synchronous: the event is recorded, and the one listener the
  class registers itself, \<^verbatim>\<open>handleReceiveBytes\<close> for \<^verbatim>\<open>receive\<close>, runs if registered.
\<close>

definition dispatchEvent :: "event \<Rightarrow> nwserial \<Rightarrow> nwserial" where
  "dispatchEvent ev s =
     (let s1 = s\<lparr> events := events s @ [ev] \<rparr> in
      case ev of
        ReceiveEvent detail \<Rightarrow> if receiveListener s1 then handleReceiveBytes detail s1 else s1
      | _ \<Rightarrow> s1)"

subsection \<open>disconnect\<close>

text \<open>The \<^verbatim>\<open>finally\<close> block of \<^verbatim>\<open>disconnect\<close>.\<close>

definition disconnect_finally :: "nwserial \<Rightarrow> nwserial" where
  "disconnect_finally s = (if openCanceled s then s\<lparr> openCanceled := False \<rparr> else s)"

text \<open>The \<^verbatim>\<open>try\<close> block from the log line on (lines 282 to 293), then \<^verbatim>\<open>finally\<close>.\<close>

definition disconnect_finish :: "nwserial \<Rightarrow> bool settled \<times> nwserial" where
  "disconnect_finish s =
     (let s1 = s\<lparr> port := None, connectionId := IdFalse, bitrate := 0,
                  connectionInfo := None, closeRequested := False \<rparr>;
          s2 = dispatchEvent (DisconnectEvent True) s1
      in (Resolved True, disconnect_finally s2))"

text \<open>The \<^verbatim>\<open>catch\<close> block (lines 294 to 299), then \<^verbatim>\<open>finally\<close>.\<close>

definition disconnect_catch :: "nwserial \<Rightarrow> bool settled \<times> nwserial" where
  "disconnect_catch s =
     (let s1 = s\<lparr> closeRequested := False, connectionInfo := None \<rparr>;
          s2 = dispatchEvent (DisconnectEvent False) s1
      in (Resolved False, disconnect_finally s2))"

text \<open>
  \<^verbatim>\<open>disconnect\<close> up to its \<^verbatim>\<open>await\<close>. The two early returns stand before the \<^verbatim>\<open>try\<close>,
  so \<^verbatim>\<open>finally\<close> does not run for them. The promise is awaited only when the port is
  there and open; otherwise the method runs to its end at once.
\<close>

definition disconnect_begin :: "nwserial \<Rightarrow> bool settled \<times> nwserial" where
  "disconnect_begin s =
     (if \<not> connected s then (Resolved True, s)
      else
        let s1 = s\<lparr> connected := False, transmitting := False, reading := False \<rparr> in
        if closeRequested s1 then (Resolved True, s1)
        else
          let s2 = s1\<lparr> closeRequested := True \<rparr>;
              s3 = s2\<lparr> receiveListener := False \<rparr>
          in case port s3 of
               None \<Rightarrow> disconnect_finish s3
             | Some h \<Rightarrow>
                 if isOpen h
                 then (Awaiting, s3\<lparr> calls := calls s3 @ [CloseCall (handlePath h)] \<rparr>)
                 else disconnect_finish s3)"

text \<open>
  \<^verbatim>\<open>disconnect\<close> after its \<^verbatim>\<open>await\<close>. The callback of \<^verbatim>\<open>close\<close> logs an error and
  resolves the promise all the same (lines 273 to 278); only a throw reaches \<^verbatim>\<open>catch\<close>.
\<close>

definition disconnect_resume :: "close_outcome \<Rightarrow> nwserial \<Rightarrow> bool settled \<times> nwserial" where
  "disconnect_resume co s =
     (case co of
        CloseOk \<Rightarrow> disconnect_finish s
      | CloseError \<Rightarrow> disconnect_finish s
      | CloseThrows \<Rightarrow> disconnect_catch s)"

text \<open>\<^verbatim>\<open>disconnect\<close> run without interleaving.\<close>

definition disconnect :: "close_outcome \<Rightarrow> nwserial \<Rightarrow> bool settled \<times> nwserial" where
  "disconnect co s =
     (case disconnect_begin s of
        (Awaiting, s1) \<Rightarrow> disconnect_resume co s1
      | r \<Rightarrow> r)"

subsection \<open>connect\<close>

text \<open>
  \<^verbatim>\<open>connect(path, options)\<close> up to the call of \<^verbatim>\<open>port.open\<close>; \<open>baud\<close> is
  \<^verbatim>\<open>options.baudRate\<close>. The guard looks at \<^verbatim>\<open>this.connected\<close> only. The port object is
  constructed inside the promise's executor, where a throw (\<^verbatim>\<open>new\<close> applied to the null
  \<^verbatim>\<open>_SerialPort\<close>) rejects the returned promise and is not seen by the method's
  \<^verbatim>\<open>catch\<close>; nothing else in the \<^verbatim>\<open>try\<close> block throws, so the \<^verbatim>\<open>catch\<close> has no branch
  here.
\<close>

definition connect_begin :: "string \<Rightarrow> nat \<Rightarrow> nwserial \<Rightarrow> bool settled \<times> nwserial" where
  "connect_begin p baud s =
     (if connected s then (Resolved True, s)
      else
        let s1 = s\<lparr> openRequested := True, closeRequested := False \<rparr> in
        case find (\<lambda>d. path d = p) (ports s1) of
          None \<Rightarrow> (Resolved False, dispatchEvent (ConnectEvent DetailFalse) s1)
        | Some device \<Rightarrow>
            if \<not> serialPortLoaded s1 then (Rejected, s1)
            else (Awaiting,
                  s1\<lparr> port := Some \<lparr> handleId = portsCreated s1, handlePath = p,
                                     baudRate = baud, isOpen = False, dataListeners = 0,
                                     errorListeners = 0, closeListeners = 0 \<rparr>,
                      portsCreated := Suc (portsCreated s1),
                      calls := calls s1 @ [OpenCall p baud] \<rparr>))"

text \<open>
  The library's effect when the open of the object \<open>oid\<close> succeeds: that object is open.
  It shows in the session only if it is the object held in \<^verbatim>\<open>this.port\<close>; a later
  \<^verbatim>\<open>connect\<close> may have put another object there.
\<close>

definition handle_opened :: "nat \<Rightarrow> nwserial \<Rightarrow> nwserial" where
  "handle_opened oid s =
     s\<lparr> port := map_option (\<lambda>h. if handleId h = oid then h\<lparr> isOpen := True \<rparr> else h) (port s) \<rparr>"

text \<open>
  Lines 215 to 234: \<^verbatim>\<open>this.port.on\<close> for \<^verbatim>\<open>data\<close>, \<^verbatim>\<open>error\<close> and \<^verbatim>\<open>close\<close> adds one
  listener each to the object held at that moment.
\<close>

definition register_listeners :: "serial_handle \<Rightarrow> serial_handle" where
  "register_listeners h =
     h\<lparr> dataListeners := Suc (dataListeners h), errorListeners := Suc (errorListeners h),
        closeListeners := Suc (closeListeners h) \<rparr>"

text \<open>
  The callback given to \<^verbatim>\<open>port.open\<close> (lines 179 to 243), a closure over \<^verbatim>\<open>path\<close>,
  \<^verbatim>\<open>options\<close> and \<^verbatim>\<open>device\<close>; \<open>oid\<close> is the object whose \<^verbatim>\<open>open\<close> calls back, while the
  body works on whatever \<^verbatim>\<open>this.port\<close> holds by then. In the cancelled branch \<^verbatim>\<open>close\<close> is called and the
  promise resolved with \<^verbatim>\<open>false\<close>; the callback of that \<^verbatim>\<open>close\<close> is
  \<open>cancel_close_callback\<close>. Where \<^verbatim>\<open>this.port\<close> is null the member access throws inside
  the callback.
\<close>

definition open_callback ::
  "nat \<Rightarrow> string \<Rightarrow> nat \<Rightarrow> descriptor \<Rightarrow> open_outcome \<Rightarrow> close_outcome \<Rightarrow> nwserial \<Rightarrow>
   bool settled \<times> nwserial" where
  "open_callback oid p baud device oo co s =
     (case oo of
        OpenFailed \<Rightarrow>
          (Resolved False,
           dispatchEvent (ConnectEvent DetailFalse) (s\<lparr> openRequested := False, port := None \<rparr>))
      | Opened \<Rightarrow>
          let s0 = handle_opened oid s in
          if openCanceled s0 then
            let s1 = s0\<lparr> openRequested := False, openCanceled := False \<rparr> in
            case port s1 of
              None \<Rightarrow> (Uncaught, s1)
            | Some h \<Rightarrow>
                let s2 = s1\<lparr> calls := calls s1 @ [CloseCall (handlePath h)] \<rparr> in
                if co = CloseThrows then (Uncaught, s2) else (Resolved False, s2)
          else
            let info = \<lparr> usbVendorId = vendorId device, usbProductId = productId device \<rparr>;
                s1 = s0\<lparr> connected := True, connectionId := IdPath p, bitrate := baud,
                         bytesReceived := 0, bytesSent := 0, failed := 0,
                         openRequested := False, reading := True,
                         connectionInfo := Some info \<rparr>
            in case port s1 of
                 None \<Rightarrow> (Uncaught, s1)
               | Some h \<Rightarrow>
                   let s2 = s1\<lparr> port := Some (register_listeners h) \<rparr>;
                       s3 = s2\<lparr> receiveListener := True \<rparr>
                   in (Resolved True, dispatchEvent (ConnectEvent (DetailInfo info)) s3))"

text \<open>The callback of the \<^verbatim>\<open>close\<close> of a cancelled open (lines 192 to 195); it ignores its argument.\<close>

definition cancel_close_callback :: "nwserial \<Rightarrow> nwserial" where
  "cancel_close_callback s = dispatchEvent (ConnectEvent DetailFalse) (s\<lparr> port := None \<rparr>)"

text \<open>\<^verbatim>\<open>connect\<close> with its callbacks, run without interleaving.\<close>

definition connect ::
  "string \<Rightarrow> nat \<Rightarrow> open_outcome \<Rightarrow> close_outcome \<Rightarrow> nwserial \<Rightarrow> bool settled \<times> nwserial" where
  "connect p baud oo co s =
     (case connect_begin p baud s of
        (Awaiting, s1) \<Rightarrow>
          (case find (\<lambda>d. path d = p) (ports s1) of
             None \<Rightarrow> (Uncaught, s1)
           | Some device \<Rightarrow>
               let closing = (oo = Opened \<and> openCanceled s1);
                   r = open_callback (portsCreated s) p baud device oo co s1
               in if closing \<and> fst r = Resolved False
                  then (fst r, cancel_close_callback (snd r))
                  else r)
      | r \<Rightarrow> r)"

subsection \<open>The handlers of the port's events\<close>

text \<open>The handler of \<^verbatim>\<open>data\<close> (lines 215 to 220).\<close>

definition dataHandler :: "byte list \<Rightarrow> nwserial \<Rightarrow> nwserial" where
  "dataHandler chunk s = (if reading s then dispatchEvent (ReceiveEvent chunk) s else s)"

text \<open>
  The handlers of \<^verbatim>\<open>error\<close> and \<^verbatim>\<open>close\<close> (lines 222 to 234). They call
  \<^verbatim>\<open>disconnect\<close> without awaiting it: \<open>None\<close> says that it was not called, \<open>Some r\<close>
  how far the call got before the handler returned.
\<close>

definition errorHandler :: "nwserial \<Rightarrow> bool settled option \<times> nwserial" where
  "errorHandler s =
     (if connected s then (Some (fst (disconnect_begin s)), snd (disconnect_begin s))
      else (None, s))"

definition closeHandler :: "nwserial \<Rightarrow> bool settled option \<times> nwserial" where
  "closeHandler s =
     (if connected s then (Some (fst (disconnect_begin s)), snd (disconnect_begin s))
      else (None, s))"

text \<open>
  The held port object emits an event: every listener registered on it for that event
  runs, one after the other, before anything else does.
\<close>

definition emit_data :: "byte list \<Rightarrow> nwserial \<Rightarrow> nwserial" where
  "emit_data chunk s =
     (case port s of
        None \<Rightarrow> s
      | Some h \<Rightarrow> (dataHandler chunk ^^ dataListeners h) s)"

definition emit_error :: "nwserial \<Rightarrow> nwserial" where
  "emit_error s =
     (case port s of
        None \<Rightarrow> s
      | Some h \<Rightarrow> ((\<lambda>t. snd (errorHandler t)) ^^ errorListeners h) s)"

definition emit_close :: "nwserial \<Rightarrow> nwserial" where
  "emit_close s =
     (case port s of
        None \<Rightarrow> s
      | Some h \<Rightarrow> ((\<lambda>t. snd (closeHandler t)) ^^ closeListeners h) s)"

subsection \<open>send\<close>

definition send_reply :: "nat \<Rightarrow> bool \<Rightarrow> send_return" where
  "send_reply n callback =
     \<lparr> result_bytesSent = n, callbackArg = (if callback then Some n else None) \<rparr>"

text \<open>
  \<^verbatim>\<open>send(data, callback)\<close> up to its \<^verbatim>\<open>await\<close>; \<open>callback\<close> says whether one was
  supplied. \<open>data\<close> is a byte array, its \<^verbatim>\<open>byteLength\<close> the length of the list.
\<close>

definition send_begin :: "byte list \<Rightarrow> bool \<Rightarrow> nwserial \<Rightarrow> send_return settled \<times> nwserial" where
  "send_begin data callback s =
     (if \<not> connected s \<or> port s = None then (Resolved (send_reply 0 callback), s)
      else case port s of
             None \<Rightarrow> (Resolved (send_reply 0 callback), s)
           | Some h \<Rightarrow> (Awaiting, s\<lparr> calls := calls s @ [WriteCall (handlePath h) data] \<rparr>))"

text \<open>
  \<^verbatim>\<open>send\<close> after the callback of \<^verbatim>\<open>write\<close>. A write error rejects the promise and the
  \<^verbatim>\<open>catch\<close> answers 0. After a good write, \<^verbatim>\<open>resolve\<close> itself is the callback of
  \<^verbatim>\<open>drain\<close>, so the promise is resolved whatever the drain reports (line 324).
\<close>

definition send_resume ::
  "byte list \<Rightarrow> bool \<Rightarrow> send_outcome \<Rightarrow> nwserial \<Rightarrow> send_return settled \<times> nwserial" where
  "send_resume data callback so s =
     (case so of
        WriteFailed \<Rightarrow> (Resolved (send_reply 0 callback), s)
      | _ \<Rightarrow>
          (case port s of
             None \<Rightarrow> (Uncaught, s)
           | Some h \<Rightarrow>
               let s1 = s\<lparr> calls := calls s @ [DrainCall (handlePath h)] \<rparr>;
                   s2 = s1\<lparr> bytesSent := bytesSent s1 + length data \<rparr>
               in (Resolved (send_reply (length data) callback), s2)))"

definition send ::
  "byte list \<Rightarrow> bool \<Rightarrow> send_outcome \<Rightarrow> nwserial \<Rightarrow> send_return settled \<times> nwserial" where
  "send data callback so s =
     (case send_begin data callback s of
        (Awaiting, s1) \<Rightarrow> send_resume data callback so s1
      | r \<Rightarrow> r)"

subsection \<open>The device registry\<close>

text \<open>
  \<^verbatim>\<open>parseInt(str, 16)\<close>: white space is skipped, then a sign, then \<^verbatim>\<open>0x\<close> or \<^verbatim>\<open>0X\<close>,
  and the longest run of hexadecimal digits is read; no digit gives NaN. White space is
  the ASCII one here, and the value is exact (a double is, below \<open>2^53\<close>).
\<close>

definition isWhiteSpace :: "char \<Rightarrow> bool" where
  "isWhiteSpace c = (let n = (of_char c :: nat) in n = 32 \<or> (9 \<le> n \<and> n \<le> 13))"

definition hexDigit :: "char \<Rightarrow> int option" where
  "hexDigit c =
     (let n = (of_char c :: nat) in
      if 48 \<le> n \<and> n \<le> 57 then Some (int n - 48)
      else if 97 \<le> n \<and> n \<le> 102 then Some (int n - 87)
      else if 65 \<le> n \<and> n \<le> 70 then Some (int n - 55)
      else None)"

fun hexDigits :: "string \<Rightarrow> int list" where
  "hexDigits [] = []"
| "hexDigits (c # cs) = (case hexDigit c of None \<Rightarrow> [] | Some d \<Rightarrow> d # hexDigits cs)"

fun stripSign :: "string \<Rightarrow> int \<times> string" where
  "stripSign [] = (1, [])"
| "stripSign (c # cs) =
     (if c = CHR ''-'' then (- 1, cs) else if c = CHR ''+'' then (1, cs) else (1, c # cs))"

fun stripHexPrefix :: "string \<Rightarrow> string" where
  "stripHexPrefix (a # b # cs) =
     (if a = CHR ''0'' \<and> (b = CHR ''x'' \<or> b = CHR ''X'') then cs else a # b # cs)"
| "stripHexPrefix cs = cs"

definition parseInt16 :: "string \<Rightarrow> js_number" where
  "parseInt16 str =
     (let (sign, rest) = stripSign (dropWhile isWhiteSpace str);
          ds = hexDigits (stripHexPrefix rest)
      in if ds = [] then NaN else Num (sign * foldl (\<lambda>a d. 16 * a + d) 0 ds))"

text \<open>\<^verbatim>\<open>x ? parseInt(x, 16) : undefined\<close>: a missing or empty string is falsy.\<close>

definition parseId :: "string option \<Rightarrow> js_number option" where
  "parseId x = (case x of None \<Rightarrow> None | Some v \<Rightarrow> if v = [] then None else Some (parseInt16 v))"

text \<open>
  \<^verbatim>\<open>vendorId && vendorIdNames[vendorId]\<close>, when truthy. The table \<^verbatim>\<open>vendorIdNames\<close> is
  imported from a module outside the sources at hand and is a parameter.
\<close>

definition vendorName :: "(int \<rightharpoonup> string) \<Rightarrow> js_number option \<Rightarrow> string option" where
  "vendorName vendorIdNames vid =
     (case vid of
        Some (Num n) \<Rightarrow>
          if n = 0 then None
          else (case vendorIdNames n of
                  None \<Rightarrow> None
                | Some name \<Rightarrow> if name = [] then None else Some name)
      | _ \<Rightarrow> None)"

definition createPort :: "(int \<rightharpoonup> string) \<Rightarrow> port_info \<Rightarrow> descriptor" where
  "createPort vendorIdNames portInfo =
     (let vid = parseId (info_vendorId portInfo);
          pid = parseId (info_productId portInfo);
          name =
            (case vendorName vendorIdNames vid of
               Some n \<Rightarrow> n
             | None \<Rightarrow>
                 (case info_manufacturer portInfo of
                    Some m \<Rightarrow> if m = [] then info_path portInfo else m
                  | None \<Rightarrow> info_path portInfo))
      in \<lparr> path = info_path portInfo, displayName = ''Betaflight '' @ name,
           vendorId = vid, productId = pid, rawPort = portInfo \<rparr>)"

text \<open>The body of the first loop of \<^verbatim>\<open>_pollDevices\<close>; \<open>knownPaths\<close> was taken before the loop.\<close>

definition poll_add :: "(int \<rightharpoonup> string) \<Rightarrow> string list \<Rightarrow> nwserial \<Rightarrow> port_info \<Rightarrow> nwserial" where
  "poll_add vendorIdNames knownPaths s portInfo =
     (if info_path portInfo \<notin> set knownPaths
      then let added = createPort vendorIdNames portInfo
           in dispatchEvent (AddedDevice added) (s\<lparr> ports := ports s @ [added] \<rparr>)
      else s)"

text \<open>The body of the second loop, which runs over a copy of \<^verbatim>\<open>this.ports\<close>.\<close>

definition poll_remove :: "string list \<Rightarrow> nwserial \<Rightarrow> descriptor \<Rightarrow> nwserial" where
  "poll_remove currentPaths s prt =
     (if path prt \<notin> set currentPaths
      then dispatchEvent (RemovedDevice prt)
             (s\<lparr> ports := filter (\<lambda>q. path q \<noteq> path prt) (ports s) \<rparr>)
      else s)"

text \<open>
  \<^verbatim>\<open>_pollDevices\<close>, from the answer of \<^verbatim>\<open>SerialPort.list()\<close> on; nothing is done
  before the \<^verbatim>\<open>await\<close> but the test of \<^verbatim>\<open>_SerialPort\<close>.
\<close>

definition pollDevices :: "(int \<rightharpoonup> string) \<Rightarrow> list_outcome \<Rightarrow> nwserial \<Rightarrow> nwserial" where
  "pollDevices vendorIdNames lo s =
     (if \<not> serialPortLoaded s then s
      else case lo of
             ListThrows \<Rightarrow> s
           | ListOk systemPorts \<Rightarrow>
               let currentPaths = map info_path systemPorts;
                   knownPaths = map path (ports s);
                   s1 = foldl (poll_add vendorIdNames knownPaths) s systemPorts
               in foldl (poll_remove currentPaths) s1 (ports s1))"

definition loadDevices :: "(int \<rightharpoonup> string) \<Rightarrow> list_outcome \<Rightarrow> nwserial \<Rightarrow> nwserial" where
  "loadDevices vendorIdNames lo s =
     (if \<not> serialPortLoaded s then s
      else case lo of
             ListThrows \<Rightarrow> s
           | ListOk systemPorts \<Rightarrow> s\<lparr> ports := map (createPort vendorIdNames) systemPorts \<rparr>)"

definition getConnectedPort :: "nwserial \<Rightarrow> descriptor option" where
  "getConnectedPort s = find (\<lambda>q. IdPath (path q) = connectionId s) (ports s)"

subsection \<open>The session as a transition system\<close>

text \<open>
  The session is Open on a path after a successful \<^verbatim>\<open>connect\<close>: connected, with the
  path as its identifier, holding a port object for that path, reading, with its
  listener registered and no close under way.
\<close>

definition is_Open :: "string \<Rightarrow> nwserial \<Rightarrow> bool" where
  "is_Open p s =
     (connected s \<and> connectionId s = IdPath p \<and> reading s \<and> receiveListener s \<and>
      \<not> closeRequested s \<and>
      (case port s of None \<Rightarrow> False | Some h \<Rightarrow> handlePath h = p))"

text \<open>
  Everything that can happen to the object, one uninterrupted piece of code each: the
  two parts of each method, the callbacks, the handlers of the port's events, the
  registry's methods, and the library changing \<^verbatim>\<open>isOpen\<close> of the held port object. The
  handlers of the port's events appear one run at a time (\<open>PortData\<close>, \<open>PortError\<close>,
  \<open>PortClose\<close>), whichever object emitted the event.
\<close>

datatype action =
    ConnectCall string nat
  | OpenCallback nat string nat descriptor open_outcome close_outcome
  | CancelCloseCallback
  | DisconnectCall
  | DisconnectResume close_outcome
  | SendCall "byte list" bool
  | SendResume "byte list" bool send_outcome
  | PortData "byte list"
  | PortError
  | PortClose
  | PollDevices list_outcome
  | LoadDevices list_outcome
  | HandleIsOpen bool

definition step :: "(int \<rightharpoonup> string) \<Rightarrow> action \<Rightarrow> nwserial \<Rightarrow> nwserial" where
  "step vendorIdNames a s =
     (case a of
        ConnectCall p baud \<Rightarrow> snd (connect_begin p baud s)
      | OpenCallback oid p baud device oo co \<Rightarrow> snd (open_callback oid p baud device oo co s)
      | CancelCloseCallback \<Rightarrow> cancel_close_callback s
      | DisconnectCall \<Rightarrow> snd (disconnect_begin s)
      | DisconnectResume co \<Rightarrow> snd (disconnect_resume co s)
      | SendCall data callback \<Rightarrow> snd (send_begin data callback s)
      | SendResume data callback so \<Rightarrow> snd (send_resume data callback so s)
      | PortData chunk \<Rightarrow> dataHandler chunk s
      | PortError \<Rightarrow> snd (errorHandler s)
      | PortClose \<Rightarrow> snd (closeHandler s)
      | PollDevices lo \<Rightarrow> pollDevices vendorIdNames lo s
      | LoadDevices lo \<Rightarrow> loadDevices vendorIdNames lo s
      | HandleIsOpen b \<Rightarrow> s\<lparr> port := map_option (\<lambda>h. h\<lparr> isOpen := b \<rparr>) (port s) \<rparr>)"

text \<open>The one action that enters Open: the open callback of a good, uncancelled open.\<close>

definition entersOpen :: "action \<Rightarrow> nwserial \<Rightarrow> bool" where
  "entersOpen a s =
     (case a of
        OpenCallback oid p baud device oo co \<Rightarrow> oo = Opened \<and> \<not> openCanceled s
      | _ \<Rightarrow> False)"

fun run :: "(int \<rightharpoonup> string) \<Rightarrow> action list \<Rightarrow> nwserial \<Rightarrow> nwserial" where
  "run vendorIdNames [] s = s"
| "run vendorIdNames (a # as) s = run vendorIdNames as (step vendorIdNames a s)"

text \<open>No action of the run enters Open.\<close>

fun noEntry :: "(int \<rightharpoonup> string) \<Rightarrow> action list \<Rightarrow> nwserial \<Rightarrow> bool" where
  "noEntry vendorIdNames [] s = True"
| "noEntry vendorIdNames (a # as) s =
     (\<not> entersOpen a s \<and> noEntry vendorIdNames as (step vendorIdNames a s))"



subsection \<open>A concrete session\<close>

definition demoInfo :: port_info where
  "demoInfo = \<lparr> info_path = ''COM3'', info_manufacturer = Some ''STM Electronics'',
                info_vendorId = Some ''0483'', info_productId = Some ''5740'' \<rparr>"

definition demoIdle :: nwserial where
  "demoIdle = loadDevices Map.empty (ListOk [demoInfo]) (constructor_fields True)"

definition demoOpen :: nwserial where
  "demoOpen = snd (connect ''COM3'' 115200 Opened CloseOk demoIdle)"

text \<open>A \<^verbatim>\<open>connect\<close> to COM3 whose open has not called back yet.\<close>

definition demoOpening :: nwserial where
  "demoOpening = snd (connect_begin ''COM3'' 115200 demoIdle)"

definition demoInfo4 :: port_info where
  "demoInfo4 = \<lparr> info_path = ''COM4'', info_manufacturer = None,
                 info_vendorId = None, info_productId = None \<rparr>"

definition demoIdle2 :: nwserial where
  "demoIdle2 = loadDevices Map.empty (ListOk [demoInfo, demoInfo4]) (constructor_fields True)"

text \<open>
  Two \<^verbatim>\<open>connect\<close> calls, to COM3 and then to COM4, before the first open has called
  back; then both opens succeed, in the order of the calls.
\<close>

definition demoRace :: nwserial where
  "demoRace =
     run Map.empty
       [ConnectCall ''COM3'' 115200,
        ConnectCall ''COM4'' 115200,
        OpenCallback 0 ''COM3'' 115200 (createPort Map.empty demoInfo) Opened CloseOk,
        OpenCallback 1 ''COM4'' 115200 (createPort Map.empty demoInfo4) Opened CloseOk]
       demoIdle2"

section \<open>PortHandler.selectActivePort\<close>

text \<open>
  Modelled from the spec: \<^verbatim>\<open>PortHandler.selectActivePort\<close> of
  \<^verbatim>\<open>src/js/port_handler.js\<close> is missing from the sources (only its test,
  \<^verbatim>\<open>test/js/port_handler.test.js\<close>, is there). The definitions below follow section 4.3
  of the specification: a suggested device wins; otherwise the devices of the three
  groups are scanned in the order serial, USB, Bluetooth, and the first filter of the
  ordered filter list that is a substring of some scanned device's display name selects
  the first such device; otherwise the virtual sentinel, then the manual one, then
  undefined with the selection state \<^verbatim>\<open>noselection\<close>. The filter list is a parameter. The
  selection state is the result, or \<^verbatim>\<open>noselection\<close> when the result is undefined.
\<close>

record port_entry =
  entry_path :: string
  entry_displayName :: string

record selection =
  selected :: "string option"
  portPicker_selectedPort :: string

fun startsWith :: "string \<Rightarrow> string \<Rightarrow> bool" where
  "startsWith hay [] = True"
| "startsWith [] (n # ns) = False"
| "startsWith (h # hs) (n # ns) = (h = n \<and> startsWith hs ns)"

fun includes_str :: "string \<Rightarrow> string \<Rightarrow> bool" where
  "includes_str [] needle = (needle = [])"
| "includes_str (h # hs) needle = (startsWith (h # hs) needle \<or> includes_str hs needle)"

fun firstFilterMatch :: "string list \<Rightarrow> port_entry list \<Rightarrow> port_entry option" where
  "firstFilterMatch [] devices = None"
| "firstFilterMatch (f # fs) devices =
     (case find (\<lambda>d. includes_str (entry_displayName d) f) devices of
        Some d \<Rightarrow> Some d
      | None \<Rightarrow> firstFilterMatch fs devices)"

definition matchesFilter :: "string list \<Rightarrow> port_entry \<Rightarrow> bool" where
  "matchesFilter filters d = list_ex (\<lambda>f. includes_str (entry_displayName d) f) filters"

definition selection_of :: "string option \<Rightarrow> selection" where
  "selection_of r =
     \<lparr> selected = r,
       portPicker_selectedPort = (case r of None \<Rightarrow> ''noselection'' | Some v \<Rightarrow> v) \<rparr>"

definition selectActivePort ::
  "string list \<Rightarrow> port_entry list \<Rightarrow> port_entry list \<Rightarrow> port_entry list \<Rightarrow>
   port_entry option \<Rightarrow> bool \<Rightarrow> bool \<Rightarrow> selection" where
  "selectActivePort filters serialPorts usbPorts bluetoothPorts suggestedDevice
     virtualModeEnabled manualModeEnabled =
     (case suggestedDevice of
        Some d \<Rightarrow> selection_of (Some (entry_path d))
      | None \<Rightarrow>
          (case firstFilterMatch filters (serialPorts @ usbPorts @ bluetoothPorts) of
             Some d \<Rightarrow> selection_of (Some (entry_path d))
           | None \<Rightarrow>
               if virtualModeEnabled then selection_of (Some ''virtual'')
               else if manualModeEnabled then selection_of (Some ''manual'')
               else selection_of None))"

section \<open>Properties\<close>

subsection \<open>Auxiliary facts\<close>

lemma dispatchEvent_Connect:
  "dispatchEvent (ConnectEvent d) s = s\<lparr> events := events s @ [ConnectEvent d] \<rparr>"
  by (simp add: dispatchEvent_def)

lemma dispatchEvent_Disconnect:
  "dispatchEvent (DisconnectEvent b) s = s\<lparr> events := events s @ [DisconnectEvent b] \<rparr>"
  by (simp add: dispatchEvent_def)

lemma dispatchEvent_Added:
  "dispatchEvent (AddedDevice d) s = s\<lparr> events := events s @ [AddedDevice d] \<rparr>"
  by (simp add: dispatchEvent_def)

lemma dispatchEvent_Removed:
  "dispatchEvent (RemovedDevice d) s = s\<lparr> events := events s @ [RemovedDevice d] \<rparr>"
  by (simp add: dispatchEvent_def)

lemmas dispatch_simps = dispatchEvent_Disconnect dispatchEvent_Connect dispatchEvent_Added
  dispatchEvent_Removed

lemmas disconnect_defs = disconnect_def disconnect_begin_def disconnect_resume_def
  disconnect_finish_def disconnect_catch_def disconnect_finally_def dispatchEvent_Disconnect

lemma demoIdle_eq:
  "demoIdle =
     \<lparr> connected = False, openRequested = False, openCanceled = False,
       closeRequested = False, transmitting = False, connectionInfo = None,
       connectionId = IdUndefined, bitrate = 0, bytesSent = 0, bytesReceived = 0,
       failed = 0,
       ports = [\<lparr> path = ''COM3'', displayName = ''Betaflight STM Electronics'',
                  vendorId = Some (Num 1155), productId = Some (Num 22336),
                  rawPort = demoInfo \<rparr>],
       port = None, reading = False, serialPortLoaded = True, receiveListener = False,
       portsCreated = 0, events = [], calls = [] \<rparr>"
  by (simp add: demoIdle_def demoInfo_def loadDevices_def constructor_fields_def
      createPort_def parseId_def parseInt16_def vendorName_def hexDigit_def isWhiteSpace_def)

lemma demoOpen_eq:
  "demoOpen =
     \<lparr> connected = True, openRequested = False, openCanceled = False,
       closeRequested = False, transmitting = False,
       connectionInfo = Some \<lparr> usbVendorId = Some (Num 1155), usbProductId = Some (Num 22336) \<rparr>,
       connectionId = IdPath ''COM3'', bitrate = 115200, bytesSent = 0, bytesReceived = 0,
       failed = 0,
       ports = [\<lparr> path = ''COM3'', displayName = ''Betaflight STM Electronics'',
                  vendorId = Some (Num 1155), productId = Some (Num 22336),
                  rawPort = demoInfo \<rparr>],
       port = Some \<lparr> handleId = 0, handlePath = ''COM3'', baudRate = 115200, isOpen = True,
                     dataListeners = Suc 0, errorListeners = Suc 0, closeListeners = Suc 0 \<rparr>,
       reading = True, serialPortLoaded = True, receiveListener = True, portsCreated = Suc 0,
       events = [ConnectEvent (DetailInfo \<lparr> usbVendorId = Some (Num 1155),
                                           usbProductId = Some (Num 22336) \<rparr>)],
       calls = [OpenCall ''COM3'' 115200] \<rparr>"
  by (simp add: demoOpen_def demoIdle_eq connect_def connect_begin_def open_callback_def
      handle_opened_def register_listeners_def dispatchEvent_Connect Let_def)

lemma demoOpen_is_Open: "is_Open ''COM3'' demoOpen"
  by (simp add: demoOpen_eq is_Open_def)

text \<open>
  What \<open>is_Open\<close> says is what a successful \<^verbatim>\<open>connect\<close> establishes, with both
  counters at 0.
\<close>

lemma connect_opens:
  assumes "\<not> connected s" and "find (\<lambda>d. path d = p) (ports s) = Some device"
    and "serialPortLoaded s" and "\<not> openCanceled s"
  shows "fst (connect p baud Opened co s) = Resolved True"
    and "is_Open p (snd (connect p baud Opened co s))"
    and "bytesSent (snd (connect p baud Opened co s)) = 0"
    and "bytesReceived (snd (connect p baud Opened co s)) = 0"
    and "events (snd (connect p baud Opened co s)) =
           events s @ [ConnectEvent (DetailInfo \<lparr> usbVendorId = vendorId device,
                                                    usbProductId = productId device \<rparr>)]"
    and "map_option dataListeners (port (snd (connect p baud Opened co s))) = Some (Suc 0)"
    and "map_option isOpen (port (snd (connect p baud Opened co s))) = Some True"
  using assms
  by (simp_all add: connect_def connect_begin_def open_callback_def handle_opened_def
      register_listeners_def dispatchEvent_Connect is_Open_def Let_def)

subsection \<open>disconnect\<close>

lemma disconnect_begin_not_connected:
  "\<not> connected s \<Longrightarrow> disconnect_begin s = (Resolved True, s)"
  by (simp add: disconnect_begin_def)

text \<open>
  Claim C7. Called on a session that is not connected, \<^verbatim>\<open>disconnect\<close> returns
  \<^verbatim>\<open>true\<close> at once, without suspending and without touching the session; a second call
  does the same, and no event is dispatched by either call.
\<close>

theorem disconnect_twice_when_not_connected:
  assumes "\<not> connected s"
  shows "disconnect_begin s = (Resolved True, s) \<and>
         disconnect co s = (Resolved True, s) \<and>
         disconnect co' (snd (disconnect co s)) = (Resolved True, s) \<and>
         events (snd (disconnect co' (snd (disconnect co s)))) = events s"
  using assms by (simp add: disconnect_def disconnect_begin_not_connected)

theorem disconnect_twice_when_not_connected_witness:
  "\<not> connected (constructor_fields True) \<and>
   disconnect CloseOk (constructor_fields True) = (Resolved True, constructor_fields True) \<and>
   disconnect CloseOk (snd (disconnect CloseOk (constructor_fields True))) =
     (Resolved True, constructor_fields True) \<and>
   events (snd (disconnect CloseOk (snd (disconnect CloseOk (constructor_fields True))))) = []"
proof -
  have nc: "\<not> connected (constructor_fields True)"
    by (simp add: constructor_fields_def)
  have ev: "events (constructor_fields True) = []"
    by (simp add: constructor_fields_def)
  from disconnect_twice_when_not_connected [OF nc, of CloseOk CloseOk] nc ev
  show ?thesis by simp
qed

text \<open>
  Claim C1, as stated, fails: on an Open session whose \<^verbatim>\<open>close\<close> calls back with an
  error, the event dispatched is \<^verbatim>\<open>disconnect(true)\<close>, and \<^verbatim>\<open>disconnect(false)\<close> is not
  dispatched.
\<close>

theorem disconnect_close_error_counterexample:
  "is_Open ''COM3'' demoOpen \<and>
   map_option isOpen (port demoOpen) = Some True \<and>
   fst (disconnect CloseError demoOpen) = Resolved True \<and>
   last (events (snd (disconnect CloseError demoOpen))) = DisconnectEvent True \<and>
   DisconnectEvent False \<notin> set (events (snd (disconnect CloseError demoOpen)))"
  by (simp add: demoOpen_is_Open) (simp add: demoOpen_eq disconnect_defs)

text \<open>
  Claim C1, amended. On an Open session \<^verbatim>\<open>disconnect\<close> dispatches exactly one
  \<^verbatim>\<open>disconnect\<close> event and leaves the session not connected, with no close under way
  and no connection info. Whenever the \<^verbatim>\<open>close\<close> call returns, its callback reporting
  success or an error, the result and the payload are \<^verbatim>\<open>true\<close> and \<^verbatim>\<open>port\<close>,
  \<^verbatim>\<open>connectionId\<close> and \<^verbatim>\<open>bitrate\<close> are cleared. The payload is \<^verbatim>\<open>false\<close> exactly when
  the port was open and the \<^verbatim>\<open>close\<close> call threw.
\<close>

theorem disconnect_from_Open:
  assumes "is_Open p s" and "port s = Some h"
  shows "fst (disconnect co s) = Resolved (\<not> (isOpen h \<and> co = CloseThrows)) \<and>
         events (snd (disconnect co s)) =
           events s @ [DisconnectEvent (\<not> (isOpen h \<and> co = CloseThrows))] \<and>
         \<not> connected (snd (disconnect co s)) \<and>
         \<not> closeRequested (snd (disconnect co s)) \<and>
         connectionInfo (snd (disconnect co s)) = None \<and>
         (co \<noteq> CloseThrows \<longrightarrow>
            fst (disconnect co s) = Resolved True \<and>
            port (snd (disconnect co s)) = None \<and>
            connectionId (snd (disconnect co s)) = IdFalse \<and>
            bitrate (snd (disconnect co s)) = 0)"
  using assms
  by (cases co)
     (simp_all add: is_Open_def disconnect_defs Let_def)

theorem disconnect_from_Open_witness:
  "is_Open ''COM3'' demoOpen \<and>
   port demoOpen = Some \<lparr> handleId = 0, handlePath = ''COM3'', baudRate = 115200,
                          isOpen = True, dataListeners = 1, errorListeners = 1,
                          closeListeners = 1 \<rparr> \<and>
   fst (disconnect CloseError demoOpen) = Resolved True \<and>
   events (snd (disconnect CloseError demoOpen)) = events demoOpen @ [DisconnectEvent True] \<and>
   \<not> connected (snd (disconnect CloseError demoOpen)) \<and>
   port (snd (disconnect CloseError demoOpen)) = None \<and>
   connectionId (snd (disconnect CloseError demoOpen)) = IdFalse \<and>
   bitrate (snd (disconnect CloseError demoOpen)) = 0 \<and>
   connectionInfo (snd (disconnect CloseError demoOpen)) = None"
proof -
  have p: "port demoOpen = Some \<lparr> handleId = 0, handlePath = ''COM3'', baudRate = 115200,
                                  isOpen = True, dataListeners = 1, errorListeners = 1,
                                  closeListeners = 1 \<rparr>"
    by (simp add: demoOpen_eq)
  from disconnect_from_Open [OF demoOpen_is_Open p, of CloseError] demoOpen_is_Open p
  show ?thesis by simp
qed

subsection \<open>connect while connected\<close>

text \<open>
  Claim C2, as stated, fails: an Open session answers \<^verbatim>\<open>true\<close> with no change to a
  \<^verbatim>\<open>connect\<close> for another path as well.
\<close>

theorem connect_other_path_counterexample:
  "\<not> (\<forall>p q baud s. is_Open p s \<and> connect_begin q baud s = (Resolved True, s) \<longrightarrow> q = p)"
proof
  assume h: "\<forall>p q baud s. is_Open p s \<and> connect_begin q baud s = (Resolved True, s) \<longrightarrow> q = p"
  have c: "connect_begin ''COM4'' 115200 demoOpen = (Resolved True, demoOpen)"
    by (simp add: connect_begin_def demoOpen_eq)
  from h have "is_Open ''COM3'' demoOpen \<and>
      connect_begin ''COM4'' 115200 demoOpen = (Resolved True, demoOpen) \<longrightarrow> ''COM4'' = ''COM3''"
    by (rule allE) (erule allE, erule allE, erule allE, assumption)
  with demoOpen_is_Open c show False by simp
qed

text \<open>
  Claim C2, amended. On a session that is Open on a path, \<^verbatim>\<open>connect\<close> for any path,
  the same or another, returns \<^verbatim>\<open>true\<close> at once and changes nothing.
\<close>

theorem connect_while_Open:
  assumes "is_Open p s"
  shows "connect_begin q baud s = (Resolved True, s) \<and>
         connect q baud oo co s = (Resolved True, s)"
  using assms by (simp add: is_Open_def connect_def connect_begin_def)

theorem connect_while_Open_witness:
  "is_Open ''COM3'' demoOpen \<and>
   connect ''COM4'' 9600 Opened CloseOk demoOpen = (Resolved True, demoOpen) \<and>
   connect ''COM3'' 9600 Opened CloseOk demoOpen = (Resolved True, demoOpen)"
  using connect_while_Open [OF demoOpen_is_Open, of "''COM4''" 9600 Opened CloseOk]
    connect_while_Open [OF demoOpen_is_Open, of "''COM3''" 9600 Opened CloseOk]
    demoOpen_is_Open
  by simp

subsection \<open>send\<close>

text \<open>
  Claim C10. On a session that is not connected or holds no port, \<^verbatim>\<open>send\<close> resolves
  at once with \<^verbatim>\<open>{bytesSent: 0}\<close>, gives the same to the callback if there is one, and
  leaves every field, the event trace included, as it was.
\<close>

theorem send_when_not_open:
  assumes "\<not> connected s \<or> port s = None"
  shows "send_begin data callback s =
           (Resolved \<lparr> result_bytesSent = 0,
                        callbackArg = (if callback then Some 0 else None) \<rparr>, s) \<and>
         send data callback so s =
           (Resolved \<lparr> result_bytesSent = 0,
                        callbackArg = (if callback then Some 0 else None) \<rparr>, s)"
  using assms by (auto simp add: send_def send_begin_def send_reply_def)

theorem send_when_not_open_witness:
  "(\<not> connected demoIdle \<and> port demoIdle = None) \<and>
   send [1, 2, 3] True Transmitted demoIdle =
     (Resolved \<lparr> result_bytesSent = 0, callbackArg = Some 0 \<rparr>, demoIdle)"
proof -
  have nc: "\<not> connected demoIdle" and np: "port demoIdle = None"
    by (simp_all add: demoIdle_eq)
  from nc have "\<not> connected demoIdle \<or> port demoIdle = None" by simp
  from send_when_not_open [OF this, of "[1, 2, 3]" True Transmitted] nc np
  show ?thesis by simp
qed

text \<open>
  The half of claim C6 that holds: a failed write answers 0 and changes no field of an
  Open session; only the call of \<^verbatim>\<open>write\<close> itself is on record.
\<close>

lemma send_write_failure:
  assumes "is_Open p s"
  shows "send data callback WriteFailed s =
           (Resolved (send_reply 0 callback), s\<lparr> calls := calls s @ [WriteCall p data] \<rparr>)"
proof -
  from assms obtain h where "port s = Some h" "handlePath h = p" "connected s"
    by (auto simp add: is_Open_def split: option.splits)
  then show ?thesis
    by (simp add: send_def send_begin_def send_resume_def)
qed

text \<open>
  Claim C6 at a failing drain: the write of three bytes succeeds on an Open session and
  the drain reports an error; \<^verbatim>\<open>send\<close> answers \<^verbatim>\<open>{bytesSent: 3}\<close> and counts the three
  bytes as sent.
\<close>

theorem send_drain_failure_counted:
  "is_Open ''COM3'' demoOpen \<and>
   fst (send [1, 2, 3] True DrainFailed demoOpen) =
     Resolved \<lparr> result_bytesSent = 3, callbackArg = Some 3 \<rparr> \<and>
   bytesSent demoOpen = 0 \<and>
   bytesSent (snd (send [1, 2, 3] True DrainFailed demoOpen)) = 3"
  by (simp add: demoOpen_is_Open)
     (simp add: demoOpen_eq send_def send_begin_def send_resume_def send_reply_def)

subsection \<open>Unsolicited error and close\<close>







subsection \<open>The poll cycle\<close>

lemma path_createPort: "path (createPort vn portInfo) = info_path portInfo"
  by (simp add: createPort_def Let_def)

lemma poll_add_step:
  "poll_add vn known s i =
     (if info_path i \<notin> set known
      then s\<lparr> ports := ports s @ [createPort vn i],
              events := events s @ [AddedDevice (createPort vn i)] \<rparr>
      else s)"
  by (simp add: poll_add_def dispatchEvent_Added Let_def)

lemma poll_remove_step:
  "poll_remove cur s x =
     (if path x \<notin> set cur
      then s\<lparr> ports := filter (\<lambda>q. path q \<noteq> path x) (ports s),
              events := events s @ [RemovedDevice x] \<rparr>
      else s)"
  by (simp add: poll_remove_def dispatchEvent_Removed)

lemma foldl_poll_add:
  "foldl (poll_add vn known) s sys =
     s\<lparr> ports := ports s @ map (createPort vn) (filter (\<lambda>i. info_path i \<notin> set known) sys),
        events := events s @
                  map (\<lambda>i. AddedDevice (createPort vn i))
                      (filter (\<lambda>i. info_path i \<notin> set known) sys) \<rparr>"
proof (induction sys arbitrary: s)
  case Nil
  show ?case by simp
next
  case (Cons i sys)
  have "foldl (poll_add vn known) s (i # sys) =
          foldl (poll_add vn known) (poll_add vn known s i) sys"
    by simp
  also note Cons.IH
  finally have eq: "foldl (poll_add vn known) s (i # sys) =
      (poll_add vn known s i)
        \<lparr> ports := ports (poll_add vn known s i) @
                    map (createPort vn) (filter (\<lambda>i. info_path i \<notin> set known) sys),
           events := events (poll_add vn known s i) @
                     map (\<lambda>i. AddedDevice (createPort vn i))
                         (filter (\<lambda>i. info_path i \<notin> set known) sys) \<rparr>" .
  show ?case
    by (simp only: eq) (simp add: poll_add_step)
qed

lemma foldl_poll_remove:
  "foldl (poll_remove cur) s xs =
     s\<lparr> ports := filter (\<lambda>q. path q \<notin> set (map path (filter (\<lambda>x. path x \<notin> set cur) xs)))
                        (ports s),
        events := events s @ map RemovedDevice (filter (\<lambda>x. path x \<notin> set cur) xs) \<rparr>"
proof (induction xs arbitrary: s)
  case Nil
  show ?case by simp
next
  case (Cons x xs)
  have "foldl (poll_remove cur) s (x # xs) =
          foldl (poll_remove cur) (poll_remove cur s x) xs"
    by simp
  also note Cons.IH
  finally have eq: "foldl (poll_remove cur) s (x # xs) =
      (poll_remove cur s x)
        \<lparr> ports := filter (\<lambda>q. path q \<notin> set (map path (filter (\<lambda>x. path x \<notin> set cur) xs)))
                          (ports (poll_remove cur s x)),
           events := events (poll_remove cur s x) @
                     map RemovedDevice (filter (\<lambda>x. path x \<notin> set cur) xs) \<rparr>" .
  show ?case
    by (simp only: eq) (simp add: poll_remove_step conj_commute)
qed

lemma pollDevices_loaded:
  assumes "serialPortLoaded s"
  shows "pollDevices vn (ListOk sys) s =
           foldl (poll_remove (map info_path sys))
             (foldl (poll_add vn (map path (ports s))) s sys)
             (ports (foldl (poll_add vn (map path (ports s))) s sys))"
  using assms by (simp add: pollDevices_def Let_def)

lemma foldl_poll_remove_none:
  assumes "\<forall>x\<in>set xs. path x \<in> set cur"
  shows "foldl (poll_remove cur) s xs = s"
  using assms by (induction xs arbitrary: s) (simp_all add: poll_remove_step)

lemma filter_unique:
  assumes "distinct (map f xs)" and "x \<in> set xs"
  shows "filter (\<lambda>y. f y = f x) xs = [x]"
  using assms
proof (induction xs)
  case Nil
  then show ?case by simp
next
  case (Cons a xs)
  show ?case
  proof (cases "a = x")
    case True
    from Cons.prems(1) have "f a \<notin> f ` set xs" by simp
    with True have "\<forall>y\<in>set xs. f y \<noteq> f x" by (metis imageI)
    then have "filter (\<lambda>y. f y = f x) xs = []" by (simp add: filter_empty_conv)
    with True show ?thesis by simp
  next
    case False
    with Cons.prems have x: "x \<in> set xs" and d: "distinct (map f xs)" by auto
    from Cons.prems(1) have "f a \<notin> f ` set xs" by simp
    with x have "f a \<noteq> f x" by (metis imageI)
    with Cons.IH [OF d x] show ?thesis by simp
  qed
qed

lemma poll_unchanged:
  assumes "set (map info_path sys) = set (map path (ports s))"
  shows "pollDevices vn (ListOk sys) s = s"
proof (cases "serialPortLoaded s")
  case False
  then show ?thesis by (simp add: pollDevices_def)
next
  case True
  have "\<forall>i\<in>set sys. info_path i \<in> set (map path (ports s))"
    using assms by (metis imageI set_map)
  then have new: "filter (\<lambda>i. info_path i \<notin> set (map path (ports s))) sys = []"
    by (simp only: filter_empty_conv not_not)
  have s1: "foldl (poll_add vn (map path (ports s))) s sys = s"
    by (simp only: foldl_poll_add new) simp
  have "\<forall>x\<in>set (ports s). path x \<in> set (map info_path sys)"
    using assms by (metis imageI set_map)
  then show ?thesis
    by (simp only: pollDevices_loaded [OF True] s1 foldl_poll_remove_none)
qed

lemma poll_one_new:
  assumes l: "serialPortLoaded s"
    and d: "distinct (map info_path sys)"
    and i: "i \<in> set sys"
    and n: "info_path i \<notin> set (map path (ports s))"
    and e: "set (map info_path sys) = insert (info_path i) (set (map path (ports s)))"
  shows "pollDevices vn (ListOk sys) s =
           s\<lparr> ports := ports s @ [createPort vn i],
              events := events s @ [AddedDevice (createPort vn i)] \<rparr>"
proof -
  define K where "K = set (map path (ports s))"
  have "(info_path j \<notin> K) = (info_path j = info_path i)" if "j \<in> set sys" for j
  proof -
    from that have "info_path j \<in> set (map info_path sys)" by simp
    with e have "info_path j = info_path i \<or> info_path j \<in> K"
      unfolding K_def by (simp only: insert_iff)
    with n show ?thesis unfolding K_def by metis
  qed
  then have "filter (\<lambda>j. info_path j \<notin> K) sys = filter (\<lambda>j. info_path j = info_path i) sys"
    by (simp cong: filter_cong)
  also have "\<dots> = [i]"
    by (rule filter_unique [OF d i])
  finally have new: "filter (\<lambda>j. info_path j \<notin> set (map path (ports s))) sys = [i]"
    unfolding K_def .
  have s1: "foldl (poll_add vn (map path (ports s))) s sys =
              s\<lparr> ports := ports s @ [createPort vn i],
                 events := events s @ [AddedDevice (createPort vn i)] \<rparr>"
    by (simp only: foldl_poll_add new) simp
  have "path x \<in> set (map info_path sys)" if "x \<in> set (ports s @ [createPort vn i])" for x
  proof (cases "x = createPort vn i")
    case True
    then have "path x = info_path i" by (simp add: path_createPort)
    with e show ?thesis by (simp only: insert_iff) simp
  next
    case False
    with that have "x \<in> set (ports s)" by simp
    then have "path x \<in> set (map path (ports s))" by simp
    with e show ?thesis by (simp only: insert_iff) simp
  qed
  then have all: "\<forall>x\<in>set (ports s @ [createPort vn i]). path x \<in> set (map info_path sys)"
    by blast
  have p1: "ports (s\<lparr> ports := ports s @ [createPort vn i],
                      events := events s @ [AddedDevice (createPort vn i)] \<rparr>) =
            ports s @ [createPort vn i]"
    by simp
  show ?thesis
    by (simp only: pollDevices_loaded [OF l] s1 p1 foldl_poll_remove_none [OF all])
qed

lemma poll_keeps_paths_unique:
  assumes k: "distinct (map path (ports s))" and d: "distinct (map info_path sys)"
  shows "distinct (map path (ports (pollDevices vn (ListOk sys) s)))"
proof (cases "serialPortLoaded s")
  case False
  with k show ?thesis by (simp add: pollDevices_def)
next
  case True
  define K where "K = set (map path (ports s))"
  define new where "new = filter (\<lambda>i. info_path i \<notin> K) sys"
  define s1 where "s1 = foldl (poll_add vn (map path (ports s))) s sys"
  have p1: "ports s1 = ports s @ map (createPort vn) new"
    unfolding s1_def new_def K_def by (simp only: foldl_poll_add) simp
  have m: "map path (map (createPort vn) new) = map info_path new"
    by (simp add: path_createPort comp_def)
  have dn: "distinct (map info_path new)"
    unfolding new_def using d by (rule distinct_map_filter)
  have "\<forall>x\<in>set new. info_path x \<notin> K"
    unfolding new_def by simp
  then have disj: "K \<inter> set (map info_path new) = {}"
    by (simp only: set_map) blast
  have mp: "map path (ports s1) = map path (ports s) @ map info_path new"
    by (simp only: p1 map_append m)
  have "distinct (map path (ports s) @ map info_path new)"
    using k dn disj unfolding K_def by (simp only: distinct_append simp_thms)
  then have "distinct (map path (ports s1))"
    by (simp only: mp)
  then have "distinct (map path (filter
      (\<lambda>q. path q \<notin> set (map path (filter (\<lambda>x. path x \<notin> set (map info_path sys)) (ports s1))))
      (ports s1)))"
    by (rule distinct_map_filter)
  then show ?thesis
    unfolding pollDevices_loaded [OF True] s1_def [symmetric]
    by (simp only: foldl_poll_remove) simp
qed

text \<open>
  Claim C8, as stated for every enumerated list, fails: with COM3 known and the
  enumeration COM3, COM4, COM4, whose set of paths adds exactly the one new path COM4,
  two \<^verbatim>\<open>addedDevice\<close> events are dispatched and the known list ends with two
  descriptors for COM4. \<^verbatim>\<open>knownPaths\<close> is taken once, before the loop (line 72).
\<close>

theorem poll_repeated_path_counterexample:
  "serialPortLoaded demoIdle \<and>
   map path (ports demoIdle) = [''COM3''] \<and>
   map info_path [demoInfo, demoInfo4, demoInfo4] = [''COM3'', ''COM4'', ''COM4''] \<and>
   events (pollDevices Map.empty (ListOk [demoInfo, demoInfo4, demoInfo4]) demoIdle) =
     [AddedDevice (createPort Map.empty demoInfo4),
      AddedDevice (createPort Map.empty demoInfo4)] \<and>
   map path (ports (pollDevices Map.empty (ListOk [demoInfo, demoInfo4, demoInfo4]) demoIdle)) =
     [''COM3'', ''COM4'', ''COM4'']"
proof -
  have l: "serialPortLoaded demoIdle"
    by (simp add: demoIdle_eq)
  have k: "map path (ports demoIdle) = [''COM3'']" and e: "events demoIdle = []"
    by (simp_all add: demoIdle_eq)
  have i: "info_path demoInfo = ''COM3''" "info_path demoInfo4 = ''COM4''"
    by (simp_all add: demoInfo_def demoInfo4_def)
  have a: "foldl (poll_add Map.empty [''COM3'']) demoIdle [demoInfo, demoInfo4, demoInfo4] =
             demoIdle\<lparr> ports := ports demoIdle @ [createPort Map.empty demoInfo4,
                                                     createPort Map.empty demoInfo4],
                       events := [AddedDevice (createPort Map.empty demoInfo4),
                                  AddedDevice (createPort Map.empty demoInfo4)] \<rparr>"
    by (simp only: foldl_poll_add) (simp add: i e)
  have r: "foldl (poll_remove [''COM3'', ''COM4'', ''COM4'']) t
             (ports demoIdle @ [createPort Map.empty demoInfo4, createPort Map.empty demoInfo4]) = t"
    for t
    by (rule foldl_poll_remove_none) (simp add: demoIdle_eq path_createPort i)
  have p1: "ports (demoIdle\<lparr> ports := ports demoIdle @ [createPort Map.empty demoInfo4,
                                                        createPort Map.empty demoInfo4],
                          events := [AddedDevice (createPort Map.empty demoInfo4),
                                     AddedDevice (createPort Map.empty demoInfo4)] \<rparr>) =
            ports demoIdle @ [createPort Map.empty demoInfo4, createPort Map.empty demoInfo4]"
    by simp
  have m: "map info_path [demoInfo, demoInfo4, demoInfo4] = [''COM3'', ''COM4'', ''COM4'']"
    by (simp add: i)
  have res: "pollDevices Map.empty (ListOk [demoInfo, demoInfo4, demoInfo4]) demoIdle =
               demoIdle\<lparr> ports := ports demoIdle @ [createPort Map.empty demoInfo4,
                                                       createPort Map.empty demoInfo4],
                         events := [AddedDevice (createPort Map.empty demoInfo4),
                                    AddedDevice (createPort Map.empty demoInfo4)] \<rparr>"
    by (simp only: pollDevices_loaded [OF l] k m a p1 r)
  show ?thesis
    using l k m by (simp add: res path_createPort i)
qed

text \<open>
  Claim C8, amended. For a poll cycle whose enumeration succeeds: if the enumerated
  paths are the known paths, nothing is dispatched and the object is unchanged; if the
  enumeration lists each path once and its paths are the known ones and one new path,
  exactly one event is dispatched, \<^verbatim>\<open>addedDevice\<close> with the descriptor created for the
  new entry, which is appended to the known list; and a known list with at most one
  descriptor per path stays so over a cycle whose enumeration lists each path once.
\<close>

theorem poll_cycle:
  assumes "serialPortLoaded s"
  shows "(set (map info_path sys) = set (map path (ports s)) \<longrightarrow>
            pollDevices vn (ListOk sys) s = s) \<and>
         (distinct (map info_path sys) \<and> i \<in> set sys \<and>
          info_path i \<notin> set (map path (ports s)) \<and>
          set (map info_path sys) = insert (info_path i) (set (map path (ports s))) \<longrightarrow>
            events (pollDevices vn (ListOk sys) s) =
              events s @ [AddedDevice (createPort vn i)] \<and>
            ports (pollDevices vn (ListOk sys) s) = ports s @ [createPort vn i] \<and>
            path (createPort vn i) = info_path i) \<and>
         (distinct (map path (ports s)) \<and> distinct (map info_path sys) \<longrightarrow>
            distinct (map path (ports (pollDevices vn (ListOk sys) s))))"
proof (intro conjI impI)
  assume "set (map info_path sys) = set (map path (ports s))"
  then show "pollDevices vn (ListOk sys) s = s" by (rule poll_unchanged)
next
  assume a: "distinct (map info_path sys) \<and> i \<in> set sys \<and>
          info_path i \<notin> set (map path (ports s)) \<and>
          set (map info_path sys) = insert (info_path i) (set (map path (ports s)))"
  then have eq: "pollDevices vn (ListOk sys) s =
           s\<lparr> ports := ports s @ [createPort vn i],
              events := events s @ [AddedDevice (createPort vn i)] \<rparr>"
    using assms by (intro poll_one_new) simp_all
  show "events (pollDevices vn (ListOk sys) s) = events s @ [AddedDevice (createPort vn i)]"
    by (simp only: eq) simp
  show "ports (pollDevices vn (ListOk sys) s) = ports s @ [createPort vn i]"
    by (simp only: eq) simp
  show "path (createPort vn i) = info_path i" by (rule path_createPort)
next
  assume "distinct (map path (ports s)) \<and> distinct (map info_path sys)"
  then show "distinct (map path (ports (pollDevices vn (ListOk sys) s)))"
    by (simp add: poll_keeps_paths_unique)
qed

theorem poll_cycle_witness:
  "serialPortLoaded demoIdle \<and>
   pollDevices Map.empty (ListOk [demoInfo]) demoIdle = demoIdle \<and>
   events (pollDevices Map.empty
     (ListOk [demoInfo, \<lparr> info_path = ''COM4'', info_manufacturer = None,
                          info_vendorId = None, info_productId = None \<rparr>]) demoIdle) =
     [AddedDevice (createPort Map.empty
        \<lparr> info_path = ''COM4'', info_manufacturer = None,
          info_vendorId = None, info_productId = None \<rparr>)] \<and>
   distinct (map path (ports (pollDevices Map.empty
     (ListOk [demoInfo, \<lparr> info_path = ''COM4'', info_manufacturer = None,
                          info_vendorId = None, info_productId = None \<rparr>]) demoIdle)))"
proof -
  let ?i = "\<lparr> info_path = ''COM4'', info_manufacturer = None,
              info_vendorId = None, info_productId = None \<rparr>"
  have l: "serialPortLoaded demoIdle"
    by (simp add: demoIdle_eq)
  have same: "set (map info_path [demoInfo]) = set (map path (ports demoIdle))"
    by (simp add: demoIdle_eq demoInfo_def)
  have new: "distinct (map info_path [demoInfo, ?i]) \<and> ?i \<in> set [demoInfo, ?i] \<and>
      info_path ?i \<notin> set (map path (ports demoIdle)) \<and>
      set (map info_path [demoInfo, ?i]) = insert (info_path ?i) (set (map path (ports demoIdle)))"
    by (simp add: demoIdle_eq demoInfo_def insert_commute)
  have uniq: "distinct (map path (ports demoIdle)) \<and> distinct (map info_path [demoInfo, ?i])"
    by (simp add: demoIdle_eq demoInfo_def)
  have ev: "events demoIdle = []"
    by (simp add: demoIdle_eq)
  note unchanged = poll_cycle [OF l, where sys = "[demoInfo]" and i = ?i and vn = Map.empty]
  note added = poll_cycle [OF l, where sys = "[demoInfo, ?i]" and i = ?i and vn = Map.empty]
  from unchanged [THEN conjunct1, THEN mp, OF same]
  have 1: "pollDevices Map.empty (ListOk [demoInfo]) demoIdle = demoIdle" .
  from added [THEN conjunct2, THEN conjunct1, THEN mp, OF new]
  have 2: "events (pollDevices Map.empty (ListOk [demoInfo, ?i]) demoIdle) =
             events demoIdle @ [AddedDevice (createPort Map.empty ?i)]"
    by (rule conjunct1)
  from added [THEN conjunct2, THEN conjunct2, THEN mp, OF uniq]
  have 3: "distinct (map path (ports (pollDevices Map.empty (ListOk [demoInfo, ?i]) demoIdle)))" .
  from l 1 2 3 ev show ?thesis
    by simp
qed

subsection \<open>A disconnect during a pending open\<close>

lemma demoOpening_eq:
  "demoOpening =
     demoIdle\<lparr> openRequested := True,
               port := Some \<lparr> handleId = 0, handlePath = ''COM3'', baudRate = 115200,
                               isOpen = False, dataListeners = 0, errorListeners = 0,
                               closeListeners = 0 \<rparr>,
               portsCreated := Suc 0, calls := [OpenCall ''COM3'' 115200] \<rparr>"
  by (simp add: demoOpening_def demoIdle_eq connect_begin_def)

text \<open>
  No piece of code of the class raises \<^verbatim>\<open>openCanceled\<close>: the field is assigned
  \<^verbatim>\<open>false\<close> only (lines 16, 191 and 302), so the cancelled branch of the open callback is
  taken in no run that starts from the constructor.
\<close>

lemma openCanceled_dispatchEvent:
  "openCanceled (dispatchEvent ev s) = openCanceled s"
  by (cases ev; simp add: dispatchEvent_def handleReceiveBytes_def Let_def)

lemma openCanceled_connect_begin:
  "openCanceled (snd (connect_begin p baud s)) = openCanceled s"
  by (cases "find (\<lambda>d. path d = p) (ports s)";
      simp add: connect_begin_def dispatchEvent_Connect Let_def)

lemma openCanceled_open_callback:
  "openCanceled (snd (open_callback oid p baud device oo co s)) \<Longrightarrow> openCanceled s"
  by (cases oo; cases "port s"; cases "openCanceled s";
      simp add: open_callback_def handle_opened_def register_listeners_def
        dispatchEvent_Connect Let_def)

lemma openCanceled_disconnect_resume:
  "openCanceled (snd (disconnect_resume co s)) \<Longrightarrow> openCanceled s"
  by (cases co; cases "openCanceled s";
      simp add: disconnect_resume_def disconnect_finish_def disconnect_catch_def
        disconnect_finally_def dispatchEvent_Disconnect Let_def)

lemma openCanceled_disconnect_begin:
  "openCanceled (snd (disconnect_begin s)) \<Longrightarrow> openCanceled s"
  by (cases "port s"; cases "openCanceled s";
      simp add: disconnect_begin_def disconnect_finish_def disconnect_finally_def
        dispatchEvent_Disconnect Let_def split: if_splits)

lemma openCanceled_send:
  "openCanceled (snd (send_begin data callback s)) = openCanceled s"
  "openCanceled (snd (send_resume data callback so s)) = openCanceled s"
  by (cases "port s"; cases so; simp add: send_begin_def send_resume_def Let_def)+

lemma openCanceled_registry:
  "openCanceled (pollDevices vn lo s) = openCanceled s"
  "openCanceled (loadDevices vn lo s) = openCanceled s"
proof -
  have a: "openCanceled (foldl (poll_add vn known) t sys) = openCanceled t" for known t sys
    by (simp only: foldl_poll_add) simp
  have r: "openCanceled (foldl (poll_remove cur) t xs) = openCanceled t" for cur t xs
    by (simp only: foldl_poll_remove) simp
  show "openCanceled (pollDevices vn lo s) = openCanceled s"
    by (cases lo) (simp_all add: pollDevices_def Let_def a r)
  show "openCanceled (loadDevices vn lo s) = openCanceled s"
    by (cases lo) (simp_all add: loadDevices_def)
qed

lemma step_openCanceled:
  assumes "openCanceled (step vn a s)"
  shows "openCanceled s"
proof (cases a)
  case (OpenCallback oid p baud device oo co)
  with assms show ?thesis
    by (simp add: step_def) (rule openCanceled_open_callback)
next
  case DisconnectCall
  with assms show ?thesis
    by (simp add: step_def) (rule openCanceled_disconnect_begin)
next
  case (DisconnectResume co)
  with assms show ?thesis
    by (simp add: step_def) (rule openCanceled_disconnect_resume)
next
  case PortError
  with assms show ?thesis
    by (cases "connected s")
       (auto simp add: step_def errorHandler_def dest: openCanceled_disconnect_begin)
next
  case PortClose
  with assms show ?thesis
    by (cases "connected s")
       (auto simp add: step_def closeHandler_def dest: openCanceled_disconnect_begin)
next
  case (PortData chunk)
  with assms show ?thesis
    by (cases "reading s") (simp_all add: step_def dataHandler_def openCanceled_dispatchEvent)
qed (use assms in \<open>simp_all add: step_def openCanceled_connect_begin openCanceled_send
      openCanceled_registry openCanceled_dispatchEvent cancel_close_callback_def\<close>)

lemma run_openCanceled:
  "\<not> openCanceled s \<Longrightarrow> \<not> openCanceled (run vn as s)"
proof (induction as arbitrary: s)
  case Nil
  then show ?case by simp
next
  case (Cons a as)
  from Cons.prems have "\<not> openCanceled (step vn a s)"
    using step_openCanceled by blast
  from Cons.IH [OF this] show ?case by simp
qed

lemma never_cancelled:
  "\<not> openCanceled (run vn as (constructor_fields loaded))"
  by (rule run_openCanceled) (simp add: constructor_fields_def)

text \<open>
  Claim C9 at a \<^verbatim>\<open>disconnect\<close> during a pending open. \<^verbatim>\<open>connect\<close> to COM3 is
  pending; \<^verbatim>\<open>disconnect\<close>, the one method a caller has to give the connection up,
  returns \<^verbatim>\<open>true\<close> at its first test and changes nothing, \<^verbatim>\<open>openCanceled\<close> included.
  The open then succeeds and its callback takes the uncancelled branch: the promise
  resolves \<^verbatim>\<open>true\<close>, the session is Open on COM3 and holds the open port,
  \<^verbatim>\<open>connect\<close> is dispatched with the connection info, and \<^verbatim>\<open>close\<close> is never called.
\<close>

theorem disconnect_while_opening_does_not_cancel:
  "connect_begin ''COM3'' 115200 demoIdle = (Awaiting, demoOpening) \<and>
   disconnect_begin demoOpening = (Resolved True, demoOpening) \<and>
   \<not> openCanceled demoOpening \<and>
   fst (open_callback 0 ''COM3'' 115200 (createPort Map.empty demoInfo) Opened CloseOk
          demoOpening) = Resolved True \<and>
   is_Open ''COM3'' (snd (open_callback 0 ''COM3'' 115200 (createPort Map.empty demoInfo)
                            Opened CloseOk demoOpening)) \<and>
   map_option isOpen (port (snd (open_callback 0 ''COM3'' 115200
                                   (createPort Map.empty demoInfo) Opened CloseOk
                                   demoOpening))) = Some True \<and>
   events (snd (open_callback 0 ''COM3'' 115200 (createPort Map.empty demoInfo) Opened CloseOk
                  demoOpening)) =
     [ConnectEvent (DetailInfo \<lparr> usbVendorId = Some (Num 1155),
                                 usbProductId = Some (Num 22336) \<rparr>)] \<and>
   calls (snd (open_callback 0 ''COM3'' 115200 (createPort Map.empty demoInfo) Opened CloseOk
                 demoOpening)) = [OpenCall ''COM3'' 115200]"
proof -
  have d: "createPort Map.empty demoInfo =
             \<lparr> path = ''COM3'', displayName = ''Betaflight STM Electronics'',
               vendorId = Some (Num 1155), productId = Some (Num 22336),
               rawPort = demoInfo \<rparr>"
    by (simp add: demoInfo_def createPort_def parseId_def parseInt16_def vendorName_def
        hexDigit_def isWhiteSpace_def)
  have 1: "connect_begin ''COM3'' 115200 demoIdle = (Awaiting, demoOpening)"
    by (simp add: demoOpening_def connect_begin_def demoIdle_eq)
  have 2: "disconnect_begin demoOpening = (Resolved True, demoOpening)"
    by (simp add: demoOpening_eq demoIdle_eq disconnect_begin_def)
  have 3: "open_callback 0 ''COM3'' 115200 (createPort Map.empty demoInfo) Opened CloseOk
             demoOpening =
           (Resolved True, demoOpen)"
    by (simp add: d demoOpening_eq demoIdle_eq demoOpen_eq open_callback_def handle_opened_def
        register_listeners_def dispatchEvent_Connect Let_def)
  show ?thesis
    unfolding 3 using 1 2 demoOpen_is_Open
    by (simp add: demoOpen_eq) (simp add: demoOpening_eq demoIdle_eq)
qed

subsection \<open>The byte counters\<close>

text \<open>
  What holds of the counters in every run: the one action that enters Open leaves both
  at 0 (\<open>step_entry\<close>), no other action lowers either (\<open>step_no_entry\<close>,
  \<open>run_no_entry\<close>), a \<^verbatim>\<open>send\<close> whose write and drain succeed adds the length of its
  data (\<open>send_transmitted\<close>), and one run of the \<^verbatim>\<open>data\<close> handler adds the length of
  the chunk (\<open>dataHandler_Open\<close>).
\<close>

lemma counters_dispatchEvent:
  "bytesSent (dispatchEvent ev s) = bytesSent s"
  "bytesReceived s \<le> bytesReceived (dispatchEvent ev s)"
  by (cases ev; simp add: dispatchEvent_def handleReceiveBytes_def Let_def)+

lemma counters_connect_begin:
  "bytesSent (snd (connect_begin p baud s)) = bytesSent s"
  "bytesReceived (snd (connect_begin p baud s)) = bytesReceived s"
  by (cases "find (\<lambda>d. path d = p) (ports s)";
      simp add: connect_begin_def dispatchEvent_Connect Let_def)+

lemma counters_open_callback_entry:
  assumes "\<not> openCanceled s"
  shows "bytesSent (snd (open_callback oid p baud device Opened co s)) = 0"
    and "bytesReceived (snd (open_callback oid p baud device Opened co s)) = 0"
  using assms
  by (cases "port s"; simp add: open_callback_def handle_opened_def register_listeners_def
      dispatchEvent_Connect Let_def)+

lemma counters_open_callback_other:
  assumes "oo = OpenFailed \<or> openCanceled s"
  shows "bytesSent (snd (open_callback oid p baud device oo co s)) = bytesSent s"
    and "bytesReceived (snd (open_callback oid p baud device oo co s)) = bytesReceived s"
  using assms
  by (cases oo; cases "port s";
      simp add: open_callback_def handle_opened_def register_listeners_def
      dispatchEvent_Connect Let_def)+

lemma counters_cancel_close_callback:
  "bytesSent (cancel_close_callback s) = bytesSent s"
  "bytesReceived (cancel_close_callback s) = bytesReceived s"
  by (simp_all add: cancel_close_callback_def dispatchEvent_Connect)

lemma counters_disconnect_resume:
  "bytesSent (snd (disconnect_resume co s)) = bytesSent s"
  "bytesReceived (snd (disconnect_resume co s)) = bytesReceived s"
  by (cases co; simp add: disconnect_resume_def disconnect_finish_def disconnect_catch_def
      disconnect_finally_def dispatchEvent_Disconnect Let_def)+

lemma counters_disconnect_begin:
  "bytesSent (snd (disconnect_begin s)) = bytesSent s"
  "bytesReceived (snd (disconnect_begin s)) = bytesReceived s"
  by (simp_all add: disconnect_begin_def disconnect_finish_def disconnect_finally_def
      dispatchEvent_Disconnect Let_def split: option.splits)

lemma counters_handlers:
  "bytesSent (snd (errorHandler s)) = bytesSent s"
  "bytesReceived (snd (errorHandler s)) = bytesReceived s"
  "bytesSent (snd (closeHandler s)) = bytesSent s"
  "bytesReceived (snd (closeHandler s)) = bytesReceived s"
  by (simp_all add: errorHandler_def closeHandler_def counters_disconnect_begin)

lemma counters_send_begin:
  "bytesSent (snd (send_begin data callback s)) = bytesSent s"
  "bytesReceived (snd (send_begin data callback s)) = bytesReceived s"
  by (cases "port s"; simp add: send_begin_def)+

lemma counters_send_resume:
  "bytesSent s \<le> bytesSent (snd (send_resume data callback so s))"
  "bytesReceived (snd (send_resume data callback so s)) = bytesReceived s"
  by (cases so; cases "port s"; simp add: send_resume_def Let_def)+

lemma counters_dataHandler:
  "bytesSent (dataHandler chunk s) = bytesSent s"
  "bytesReceived s \<le> bytesReceived (dataHandler chunk s)"
  by (simp_all add: dataHandler_def counters_dispatchEvent)

lemma counters_foldl_poll_add:
  "bytesSent (foldl (poll_add vn known) s sys) = bytesSent s"
  "bytesReceived (foldl (poll_add vn known) s sys) = bytesReceived s"
  by (simp_all only: foldl_poll_add) simp_all

lemma counters_foldl_poll_remove:
  "bytesSent (foldl (poll_remove cur) s xs) = bytesSent s"
  "bytesReceived (foldl (poll_remove cur) s xs) = bytesReceived s"
  by (simp_all only: foldl_poll_remove) simp_all

lemma counters_pollDevices:
  "bytesSent (pollDevices vn lo s) = bytesSent s"
  "bytesReceived (pollDevices vn lo s) = bytesReceived s"
  by (cases lo; simp add: pollDevices_def Let_def counters_foldl_poll_add
      counters_foldl_poll_remove)+

lemma counters_loadDevices:
  "bytesSent (loadDevices vn lo s) = bytesSent s"
  "bytesReceived (loadDevices vn lo s) = bytesReceived s"
  by (cases lo; simp add: loadDevices_def)+

lemmas counters_kept = counters_connect_begin counters_cancel_close_callback
  counters_disconnect_resume counters_disconnect_begin counters_handlers counters_send_begin
  counters_pollDevices counters_loadDevices

lemma step_entry:
  assumes "entersOpen a s"
  shows "bytesSent (step vn a s) = 0 \<and> bytesReceived (step vn a s) = 0"
  using assms
  by (cases a) (simp_all add: entersOpen_def step_def counters_open_callback_entry)

lemma step_no_entry:
  assumes "\<not> entersOpen a s"
  shows "bytesSent s \<le> bytesSent (step vn a s) \<and> bytesReceived s \<le> bytesReceived (step vn a s)"
proof (cases a)
  case (OpenCallback oid p baud device oo co)
  with assms have "oo = OpenFailed \<or> openCanceled s"
    by (cases oo) (simp_all add: entersOpen_def)
  with OpenCallback show ?thesis
    by (simp add: step_def counters_open_callback_other)
next
  case (SendResume data callback so)
  then show ?thesis by (simp add: step_def counters_send_resume)
next
  case (PortData chunk)
  then show ?thesis by (simp add: step_def counters_dataHandler)
qed (simp_all add: step_def counters_kept)

lemma run_no_entry:
  "noEntry vn as s \<Longrightarrow>
     bytesSent s \<le> bytesSent (run vn as s) \<and> bytesReceived s \<le> bytesReceived (run vn as s)"
proof (induction as arbitrary: s)
  case Nil
  show ?case by simp
next
  case (Cons a as)
  from Cons.prems have n: "\<not> entersOpen a s" and r: "noEntry vn as (step vn a s)"
    by simp_all
  from step_no_entry [OF n, of vn] Cons.IH [OF r] show ?case
    by simp
qed

lemma send_transmitted:
  assumes "is_Open p s"
  shows "fst (send data callback Transmitted s) = Resolved (send_reply (length data) callback)"
    and "bytesSent (snd (send data callback Transmitted s)) = bytesSent s + length data"
    and "bytesReceived (snd (send data callback Transmitted s)) = bytesReceived s"
proof -
  from assms obtain h where "port s = Some h" "connected s"
    by (auto simp add: is_Open_def split: option.splits)
  then show
    "fst (send data callback Transmitted s) = Resolved (send_reply (length data) callback)"
    "bytesSent (snd (send data callback Transmitted s)) = bytesSent s + length data"
    "bytesReceived (snd (send data callback Transmitted s)) = bytesReceived s"
    by (simp_all add: send_def send_begin_def send_resume_def Let_def)
qed

lemma dataHandler_Open:
  assumes "is_Open p s"
  shows "bytesReceived (dataHandler chunk s) = bytesReceived s + length chunk"
    and "bytesSent (dataHandler chunk s) = bytesSent s"
    and "events (dataHandler chunk s) = events s @ [ReceiveEvent chunk]"
  using assms
  by (simp_all add: is_Open_def dataHandler_def dispatchEvent_def handleReceiveBytes_def Let_def)

lemma dataHandler_funpow:
  assumes "reading s" and "receiveListener s"
  shows "bytesReceived ((dataHandler chunk ^^ n) s) = bytesReceived s + n * length chunk \<and>
         bytesSent ((dataHandler chunk ^^ n) s) = bytesSent s \<and>
         events ((dataHandler chunk ^^ n) s) = events s @ replicate n (ReceiveEvent chunk) \<and>
         reading ((dataHandler chunk ^^ n) s) \<and> receiveListener ((dataHandler chunk ^^ n) s)"
proof (induction n)
  case 0
  from assms show ?case by simp
next
  case (Suc n)
  then show ?case
    by (simp add: dataHandler_def dispatchEvent_def handleReceiveBytes_def Let_def
        replicate_append_same)
qed

text \<open>
  On an Open session a chunk emitted by the held port adds its length once for every
  \<^verbatim>\<open>data\<close> listener on that port: exactly its length after a \<^verbatim>\<open>connect\<close> that
  ran alone, which leaves one listener.
\<close>

lemma emit_data_Open:
  assumes "is_Open p s" and "port s = Some h"
  shows "bytesReceived (emit_data chunk s) = bytesReceived s + dataListeners h * length chunk"
    and "bytesSent (emit_data chunk s) = bytesSent s"
proof -
  from assms(1) have "reading s" and "receiveListener s"
    by (simp_all add: is_Open_def)
  from dataHandler_funpow [OF this, where chunk = chunk and n = "dataListeners h"] assms(2)
  show "bytesReceived (emit_data chunk s) = bytesReceived s + dataListeners h * length chunk"
    and "bytesSent (emit_data chunk s) = bytesSent s"
    by (simp_all add: emit_data_def)
qed

lemma emit_data_after_lone_connect:
  assumes "\<not> connected s" and "find (\<lambda>d. path d = p) (ports s) = Some device"
    and "serialPortLoaded s" and "\<not> openCanceled s"
  shows "bytesReceived (emit_data chunk (snd (connect p baud Opened co s))) = length chunk"
proof -
  note c = connect_opens [OF assms, of baud co]
  from c(6) obtain h where h: "port (snd (connect p baud Opened co s)) = Some h"
    and l: "dataListeners h = Suc 0"
    by auto
  from emit_data_Open(1) [OF c(2) h, where chunk = chunk] l c(4) show ?thesis
    by simp
qed

lemma demoIdle2_eq:
  "demoIdle2 =
     \<lparr> connected = False, openRequested = False, openCanceled = False,
       closeRequested = False, transmitting = False, connectionInfo = None,
       connectionId = IdUndefined, bitrate = 0, bytesSent = 0, bytesReceived = 0,
       failed = 0,
       ports = [createPort Map.empty demoInfo, createPort Map.empty demoInfo4],
       port = None, reading = False, serialPortLoaded = True, receiveListener = False,
       portsCreated = 0, events = [], calls = [] \<rparr>"
  by (simp add: demoIdle2_def loadDevices_def constructor_fields_def)

lemma demo_paths:
  "path (createPort Map.empty demoInfo) = ''COM3''"
  "path (createPort Map.empty demoInfo4) = ''COM4''"
  by (simp_all add: path_createPort demoInfo_def demoInfo4_def)

lemma demoRace_eq:
  "demoRace =
     \<lparr> connected = True, openRequested = False, openCanceled = False,
       closeRequested = False, transmitting = False,
       connectionInfo = Some \<lparr> usbVendorId = vendorId (createPort Map.empty demoInfo4),
                                usbProductId = productId (createPort Map.empty demoInfo4) \<rparr>,
       connectionId = IdPath ''COM4'', bitrate = 115200, bytesSent = 0, bytesReceived = 0,
       failed = 0,
       ports = [createPort Map.empty demoInfo, createPort Map.empty demoInfo4],
       port = Some \<lparr> handleId = 1, handlePath = ''COM4'', baudRate = 115200, isOpen = True,
                     dataListeners = 2, errorListeners = 2, closeListeners = 2 \<rparr>,
       reading = True, serialPortLoaded = True, receiveListener = True,
       portsCreated = 2,
       events = [ConnectEvent (DetailInfo
                   \<lparr> usbVendorId = vendorId (createPort Map.empty demoInfo),
                     usbProductId = productId (createPort Map.empty demoInfo) \<rparr>),
                 ConnectEvent (DetailInfo
                   \<lparr> usbVendorId = vendorId (createPort Map.empty demoInfo4),
                     usbProductId = productId (createPort Map.empty demoInfo4) \<rparr>)],
       calls = [OpenCall ''COM3'' 115200, OpenCall ''COM4'' 115200] \<rparr>"
  by (simp add: demoRace_def demoIdle2_eq step_def connect_begin_def open_callback_def
      handle_opened_def register_listeners_def dispatchEvent_Connect demo_paths Let_def)

text \<open>
  Claim C4 at two overlapping \<^verbatim>\<open>connect\<close> calls. \<^verbatim>\<open>connect\<close> to COM3 and then to COM4
  are called before the first open has called back (the guard reads \<^verbatim>\<open>connected\<close> only;
  \<^verbatim>\<open>openRequested\<close> is written and never read), and both opens succeed. The second
  call has replaced the object in \<^verbatim>\<open>this.port\<close>, so both open callbacks register their
  \<^verbatim>\<open>data\<close> listener on it. The session is Open on COM4 with \<^verbatim>\<open>bytesReceived\<close> 0, and
  one chunk of two bytes from the port dispatches \<^verbatim>\<open>receive\<close> twice and adds four.
\<close>

theorem overlapping_connects_double_count:
  "is_Open ''COM4'' demoRace \<and>
   map_option dataListeners (port demoRace) = Some 2 \<and>
   bytesReceived demoRace = 0 \<and>
   bytesReceived (emit_data [7, 7] demoRace) = 4 \<and>
   events (emit_data [7, 7] demoRace) =
     events demoRace @ [ReceiveEvent [7, 7], ReceiveEvent [7, 7]]"
  by (simp add: demoRace_eq is_Open_def emit_data_def numeral_2_eq_2 dataHandler_def
      dispatchEvent_def handleReceiveBytes_def Let_def)

subsection \<open>The priority of selectActivePort\<close>

lemma matchesFilter_iff:
  "matchesFilter fs d = (\<exists>f\<in>set fs. includes_str (entry_displayName d) f)"
  by (simp add: matchesFilter_def list_ex_iff)

lemma firstFilterMatch_None:
  "(firstFilterMatch fs ds = None) = (\<forall>d\<in>set ds. \<not> matchesFilter fs d)"
proof (induction fs)
  case Nil
  show ?case by (simp add: matchesFilter_iff)
next
  case (Cons f fs)
  show ?case
  proof (cases "find (\<lambda>d. includes_str (entry_displayName d) f) ds")
    case None
    then have "\<forall>d\<in>set ds. \<not> includes_str (entry_displayName d) f"
      by (simp add: find_None_iff)
    with None Cons.IH show ?thesis
      by (simp add: matchesFilter_iff)
  next
    case (Some d)
    then have "d \<in> set ds" and "includes_str (entry_displayName d) f"
      by (auto simp add: find_Some_iff)
    then have "\<exists>d\<in>set ds. matchesFilter (f # fs) d"
      by (auto simp add: matchesFilter_iff)
    with Some show ?thesis by simp
  qed
qed

lemma firstFilterMatch_Some:
  "firstFilterMatch fs ds = Some d \<Longrightarrow> d \<in> set ds \<and> matchesFilter fs d"
proof (induction fs)
  case Nil
  then show ?case by simp
next
  case (Cons f fs)
  show ?case
  proof (cases "find (\<lambda>d. includes_str (entry_displayName d) f) ds")
    case None
    with Cons.prems have "firstFilterMatch fs ds = Some d" by simp
    with Cons.IH show ?thesis by (auto simp add: matchesFilter_iff)
  next
    case (Some e)
    with Cons.prems have "e = d" by simp
    with Some have "d \<in> set ds" and "includes_str (entry_displayName d) f"
      by (auto simp add: find_Some_iff)
    then show ?thesis by (auto simp add: matchesFilter_iff)
  qed
qed

text \<open>
  Claim C3. A suggested device's path is the result whatever the lists and flags are;
  without a suggestion a device matching a filter is selected, whatever the flags are;
  without a suggestion and without a match the result is \<^verbatim>\<open>virtual\<close> if the virtual mode
  is enabled, else \<^verbatim>\<open>manual\<close> if the manual mode is enabled, else undefined with the
  selection state \<^verbatim>\<open>noselection\<close>.
\<close>

theorem selectActivePort_priority:
  "selected (selectActivePort fs se us bt (Some h) v m) = Some (entry_path h) \<and>
   ((\<exists>d\<in>set (se @ us @ bt). matchesFilter fs d) \<longrightarrow>
      (\<exists>d\<in>set (se @ us @ bt). matchesFilter fs d \<and>
         selected (selectActivePort fs se us bt None v m) = Some (entry_path d))) \<and>
   ((\<forall>d\<in>set (se @ us @ bt). \<not> matchesFilter fs d) \<and> v \<longrightarrow>
      selected (selectActivePort fs se us bt None v m) = Some ''virtual'') \<and>
   ((\<forall>d\<in>set (se @ us @ bt). \<not> matchesFilter fs d) \<and> \<not> v \<and> m \<longrightarrow>
      selected (selectActivePort fs se us bt None v m) = Some ''manual'') \<and>
   ((\<forall>d\<in>set (se @ us @ bt). \<not> matchesFilter fs d) \<and> \<not> v \<and> \<not> m \<longrightarrow>
      selected (selectActivePort fs se us bt None v m) = None \<and>
      portPicker_selectedPort (selectActivePort fs se us bt None v m) = ''noselection'')"
proof (intro conjI impI)
  show "selected (selectActivePort fs se us bt (Some h) v m) = Some (entry_path h)"
    by (simp add: selectActivePort_def selection_of_def)
next
  assume "\<exists>d\<in>set (se @ us @ bt). matchesFilter fs d"
  then have "firstFilterMatch fs (se @ us @ bt) \<noteq> None"
    by (simp only: firstFilterMatch_None) blast
  then obtain d where d: "firstFilterMatch fs (se @ us @ bt) = Some d" by auto
  from firstFilterMatch_Some [OF d]
  have "d \<in> set (se @ us @ bt)" and "matchesFilter fs d" by simp_all
  moreover from d have "selected (selectActivePort fs se us bt None v m) = Some (entry_path d)"
    by (simp add: selectActivePort_def selection_of_def)
  ultimately show "\<exists>d\<in>set (se @ us @ bt). matchesFilter fs d \<and>
      selected (selectActivePort fs se us bt None v m) = Some (entry_path d)"
    by blast
next
  assume "(\<forall>d\<in>set (se @ us @ bt). \<not> matchesFilter fs d) \<and> v"
  then have "firstFilterMatch fs (se @ us @ bt) = None" and v
    by (simp_all add: firstFilterMatch_None)
  then show "selected (selectActivePort fs se us bt None v m) = Some ''virtual''"
    by (simp add: selectActivePort_def selection_of_def)
next
  assume "(\<forall>d\<in>set (se @ us @ bt). \<not> matchesFilter fs d) \<and> \<not> v \<and> m"
  then have "firstFilterMatch fs (se @ us @ bt) = None" and "\<not> v" and m
    by (simp_all add: firstFilterMatch_None)
  then show "selected (selectActivePort fs se us bt None v m) = Some ''manual''"
    by (simp add: selectActivePort_def selection_of_def)
next
  assume a: "(\<forall>d\<in>set (se @ us @ bt). \<not> matchesFilter fs d) \<and> \<not> v \<and> \<not> m"
  then have n: "firstFilterMatch fs (se @ us @ bt) = None" and "\<not> v" and "\<not> m"
    by (simp_all add: firstFilterMatch_None)
  then show "selected (selectActivePort fs se us bt None v m) = None"
    by (simp add: selectActivePort_def selection_of_def)
  from n \<open>\<not> v\<close> \<open>\<not> m\<close>
  show "portPicker_selectedPort (selectActivePort fs se us bt None v m) = ''noselection''"
    by (simp add: selectActivePort_def selection_of_def)
qed

lemma stm_matches:
  "matchesFilter [''AT32'', ''CP210'', ''SPR'', ''STM'']
     \<lparr> entry_path = ''COM3'', entry_displayName = ''Betaflight STM Electronics'' \<rparr>"
  by (simp add: matchesFilter_def)

lemma unknown_no_match:
  "\<not> matchesFilter [''AT32'', ''CP210'', ''SPR'', ''STM'']
       \<lparr> entry_path = ''COM1'', entry_displayName = ''Unknown Device'' \<rparr>"
  by (simp add: matchesFilter_def)

theorem selectActivePort_priority_witness:
  "selected (selectActivePort [''AT32'', ''CP210'', ''SPR'', ''STM'']
      [\<lparr> entry_path = ''COM3'', entry_displayName = ''Betaflight STM Electronics'' \<rparr>] [] []
      (Some \<lparr> entry_path = ''COM10'', entry_displayName = [] \<rparr>) True True) = Some ''COM10'' \<and>
   selected (selectActivePort [''AT32'', ''CP210'', ''SPR'', ''STM'']
      [\<lparr> entry_path = ''COM3'', entry_displayName = ''Betaflight STM Electronics'' \<rparr>] [] []
      None True True) = Some ''COM3'' \<and>
   selected (selectActivePort [''AT32'', ''CP210'', ''SPR'', ''STM'']
      [\<lparr> entry_path = ''COM1'', entry_displayName = ''Unknown Device'' \<rparr>] [] []
      None True True) = Some ''virtual'' \<and>
   selected (selectActivePort [''AT32'', ''CP210'', ''SPR'', ''STM'']
      [\<lparr> entry_path = ''COM1'', entry_displayName = ''Unknown Device'' \<rparr>] [] []
      None False True) = Some ''manual'' \<and>
   selected (selectActivePort [''AT32'', ''CP210'', ''SPR'', ''STM'']
      [\<lparr> entry_path = ''COM1'', entry_displayName = ''Unknown Device'' \<rparr>] [] []
      None False False) = None \<and>
   portPicker_selectedPort (selectActivePort [''AT32'', ''CP210'', ''SPR'', ''STM'']
      [\<lparr> entry_path = ''COM1'', entry_displayName = ''Unknown Device'' \<rparr>] [] []
      None False False) = ''noselection''"
  using
    selectActivePort_priority [of "[''AT32'', ''CP210'', ''SPR'', ''STM'']"
      "[\<lparr> entry_path = ''COM3'', entry_displayName = ''Betaflight STM Electronics'' \<rparr>]" "[]" "[]"
      "\<lparr> entry_path = ''COM10'', entry_displayName = [] \<rparr>" True True]
    selectActivePort_priority [of "[''AT32'', ''CP210'', ''SPR'', ''STM'']"
      "[\<lparr> entry_path = ''COM1'', entry_displayName = ''Unknown Device'' \<rparr>]" "[]" "[]"
      "\<lparr> entry_path = ''COM10'', entry_displayName = [] \<rparr>" True True]
    selectActivePort_priority [of "[''AT32'', ''CP210'', ''SPR'', ''STM'']"
      "[\<lparr> entry_path = ''COM1'', entry_displayName = ''Unknown Device'' \<rparr>]" "[]" "[]"
      "\<lparr> entry_path = ''COM10'', entry_displayName = [] \<rparr>" False True]
    selectActivePort_priority [of "[''AT32'', ''CP210'', ''SPR'', ''STM'']"
      "[\<lparr> entry_path = ''COM1'', entry_displayName = ''Unknown Device'' \<rparr>]" "[]" "[]"
      "\<lparr> entry_path = ''COM10'', entry_displayName = [] \<rparr>" False False]
    stm_matches unknown_no_match
  by simp

end
